theory Spec2Isabelle
  imports Complex_Main
begin

section \<open>Vectors and matrices of the kernels\<close>

text \<open>
  The Taichi kernels of \<^verbatim>\<open>reflect.py\<close> and \<^verbatim>\<open>mpm.py\<close> compute on 2-vectors and
  2x2 matrices of floats. The embedding reads a float as a real number, a vector as a
  pair and a matrix as the pair of its rows.
\<close>

type_synonym vec2 = "real \<times> real"
type_synonym mat2 = "vec2 \<times> vec2"

definition vadd :: "vec2 \<Rightarrow> vec2 \<Rightarrow> vec2" where
  "vadd a b = (fst a + fst b, snd a + snd b)"

definition vsub :: "vec2 \<Rightarrow> vec2 \<Rightarrow> vec2" where
  "vsub a b = (fst a - fst b, snd a - snd b)"

definition smul :: "real \<Rightarrow> vec2 \<Rightarrow> vec2" where
  "smul c a = (c * fst a, c * snd a)"

definition sdiv :: "vec2 \<Rightarrow> real \<Rightarrow> vec2" where
  "sdiv a c = (fst a / c, snd a / c)"

definition dot :: "vec2 \<Rightarrow> vec2 \<Rightarrow> real" where
  "dot a b = fst a * fst b + snd a * snd b"

definition cross :: "vec2 \<Rightarrow> vec2 \<Rightarrow> real" where
  \<comment> \<open>the scalar cross product of two 2-vectors\<close>
  "cross a b = fst a * snd b - snd a * fst b"

definition vnorm :: "vec2 \<Rightarrow> real" where
  "vnorm a = sqrt (fst a * fst a + snd a * snd a)"

definition matvec :: "mat2 \<Rightarrow> vec2 \<Rightarrow> vec2" where
  "matvec M a = (dot (fst M) a, dot (snd M) a)"

section \<open>reflect.py: the mirror polygon and the tracer\<close>

datatype error = ConfigurationError

record Reflect =
  center :: vec2
  n_mirrors :: nat
  mirror_pts :: "vec2 list"

definition linspace :: "real \<Rightarrow> real \<Rightarrow> nat \<Rightarrow> real list" where
  \<comment> \<open>\<^verbatim>\<open>np.linspace(start, stop, num)\<close>: \<open>num\<close> samples, both ends included\<close>
  "linspace start stop num =
     map (\<lambda>k. start + real k * ((stop - start) / real (num - 1))) [0..<num]"

definition Reflect_init :: "vec2 \<Rightarrow> nat \<Rightarrow> real \<Rightarrow> error + Reflect" where
  \<comment> \<open>\<^verbatim>\<open>Reflect.__init__\<close>. The body holds no check and no \<^verbatim>\<open>raise\<close>: every
      argument goes straight into the vertex formula, so no equation yields \<open>Inl\<close>.
      The two pixel buffers allocated from \<^verbatim>\<open>res\<close> play no part in the geometry
      and are left out.\<close>
  "Reflect_init c n radius =
     (let theta = linspace 0 (2 * pi) (n + 1)
      in Inr \<lparr> center = c, n_mirrors = n,
               mirror_pts = map (\<lambda>t. (fst c + radius * cos t, snd c + radius * sin t)) theta \<rparr>)"

definition reflection :: "vec2 \<Rightarrow> vec2 \<Rightarrow> vec2 \<Rightarrow> vec2" where
  "reflection obj mirror_p0 mirror_p1 =
     (let dx = fst (vsub mirror_p1 mirror_p0);
          dy = snd (vsub mirror_p1 mirror_p0);
          a = (dx * dx - dy * dy) / (dx * dx + dy * dy);
          b = (2 * dx * dy) / (dx * dx + dy * dy)
      in vadd mirror_p0 (matvec ((a, b), (b, - a)) (vsub obj mirror_p0)))"

definition intersection :: "vec2 \<Rightarrow> vec2 \<Rightarrow> vec2 \<Rightarrow> vec2 \<Rightarrow> vec2" where
  "intersection a0 a1 b0 b1 =
     (let det = cross (vsub a0 a1) (vsub b0 b1)
      in if det \<noteq> 0 then
           (let t_a = cross (vsub a0 b0) (vsub b0 b1) / det;
                t_b = cross (vsub a0 b0) (vsub a0 a1) / det
            in if 0 \<le> t_a \<and> t_a \<le> 1 \<and> 0 \<le> t_b \<and> t_b \<le> 1
               then vadd b0 (smul t_b (vsub b1 b0))
               else a1)
         else a1)"

definition closest_step :: "Reflect \<Rightarrow> vec2 \<Rightarrow> vec2 \<Rightarrow> nat \<Rightarrow> vec2 \<times> nat \<Rightarrow> vec2 \<times> nat" where
  \<comment> \<open>one round of the inner loop over the mirrors \<open>k\<close>\<close>
  "closest_step R src dst k best =
     (let hit = intersection src dst (mirror_pts R ! k) (mirror_pts R ! (k + 1))
      in if dot (vsub hit src) (vsub hit (fst best)) < - (1 / 10) then (hit, k) else best)"

definition closest :: "Reflect \<Rightarrow> vec2 \<Rightarrow> vec2 \<Rightarrow> vec2 \<times> nat" where
  "closest R src dst = fold (closest_step R src dst) [0..<n_mirrors R] (dst, 0)"

definition tracing_iter :: "Reflect \<Rightarrow> vec2 \<times> vec2 \<Rightarrow> (vec2 \<times> vec2) option" where
  \<comment> \<open>the body of the outer loop on \<open>(src, dst)\<close>: \<open>None\<close> is the \<^verbatim>\<open>break\<close>,
      \<open>Some\<close> carries the pair after one reflection\<close>
  "tracing_iter R sd =
     (let src = fst sd; dst = snd sd;
          closest_hit = fst (closest R src dst);
          closest_k = snd (closest R src dst)
      in if vnorm (vsub closest_hit dst) < 1 / 1000 then None
         else Some (closest_hit,
                    reflection dst (mirror_pts R ! closest_k) (mirror_pts R ! (closest_k + 1))))"

fun tracing_loop :: "Reflect \<Rightarrow> nat \<Rightarrow> vec2 \<times> vec2 \<Rightarrow> vec2" where
  "tracing_loop R 0 sd = snd sd"
| "tracing_loop R (Suc t) sd =
     (case tracing_iter R sd of None \<Rightarrow> snd sd | Some sd' \<Rightarrow> tracing_loop R t sd')"

definition tracing :: "Reflect \<Rightarrow> int \<Rightarrow> int \<Rightarrow> vec2" where
  \<comment> \<open>\<^verbatim>\<open>for t in range(100)\<close>: at most 100 rounds\<close>
  "tracing R i j = tracing_loop R 100 (center R, (real_of_int i, real_of_int j))"

subsection \<open>The kernel arithmetic in binary32\<close>

text \<open>
  \<^verbatim>\<open>ti.init(arch=ti.cpu)\<close> leaves Taichi's default float type at 32 bits, so the field
  \<^verbatim>\<open>mirror_pts\<close> and the arithmetic of the kernels are binary32: each operation returns
  the binary32 number nearest to the exact result, ties going to the even significand.
  \<open>f32\<close> is that rounding on the finite range (24-bit significand, smallest unit
  \<open>2^-149\<close>); overflow to infinity and NaN are not modelled. \<open>reflection_f32\<close> is
  \<^verbatim>\<open>Reflect.reflection\<close> with every operation rounded, in the source's order.
\<close>

definition rne :: "real \<Rightarrow> int" where
  \<comment> \<open>round to the nearest integer, ties to even\<close>
  "rne y = (let f = \<lfloor>y\<rfloor>; d = y - real_of_int f
            in if d < 1 / 2 then f else if d > 1 / 2 then f + 1
               else if even f then f else f + 1)"

fun f32_scale :: "nat \<Rightarrow> real \<Rightarrow> real \<Rightarrow> real \<times> real" where
  \<comment> \<open>scales \<open>y\<close> into \<open>[2^23, 2^24)\<close>, keeping \<open>y * u\<close> fixed; \<open>u\<close> is the unit in
      the last place and stops at \<open>2^-149\<close>\<close>
  "f32_scale 0 y u = (y, u)"
| "f32_scale (Suc n) y u =
     (if y < 2 ^ 23 \<and> u > 1 / 2 ^ 149 then f32_scale n (2 * y) (u / 2)
      else if 2 ^ 24 \<le> y then f32_scale n (y / 2) (2 * u)
      else (y, u))"

definition f32 :: "real \<Rightarrow> real" where
  "f32 r = (if r = 0 then 0
            else (let yu = f32_scale 300 \<bar>r\<bar> 1
                  in sgn r * real_of_int (rne (fst yu)) * snd yu))"

definition fadd :: "real \<Rightarrow> real \<Rightarrow> real" where "fadd a b = f32 (a + b)"
definition fsub :: "real \<Rightarrow> real \<Rightarrow> real" where "fsub a b = f32 (a - b)"
definition fmul :: "real \<Rightarrow> real \<Rightarrow> real" where "fmul a b = f32 (a * b)"
definition fdiv :: "real \<Rightarrow> real \<Rightarrow> real" where "fdiv a b = f32 (a / b)"

definition reflection_f32 :: "vec2 \<Rightarrow> vec2 \<Rightarrow> vec2 \<Rightarrow> vec2" where
  "reflection_f32 obj mirror_p0 mirror_p1 =
     (let dx = fsub (fst mirror_p1) (fst mirror_p0);
          dy = fsub (snd mirror_p1) (snd mirror_p0);
          a = fdiv (fsub (fmul dx dx) (fmul dy dy)) (fadd (fmul dx dx) (fmul dy dy));
          b = fdiv (fmul (fmul 2 dx) dy) (fadd (fmul dx dx) (fmul dy dy));
          u = fsub (fst obj) (fst mirror_p0);
          w = fsub (snd obj) (snd mirror_p0)
      in (fadd (fst mirror_p0) (fadd (fmul a u) (fmul b w)),
          fadd (snd mirror_p0) (fadd (fmul b u) (fmul (- a) w))))"

section \<open>mpm.py: the material point solver\<close>

subsection \<open>Matrices\<close>

definition identity :: mat2 where
  "identity = ((1, 0), (0, 1))"

definition madd :: "mat2 \<Rightarrow> mat2 \<Rightarrow> mat2" where
  "madd A B = (vadd (fst A) (fst B), vadd (snd A) (snd B))"

definition msub :: "mat2 \<Rightarrow> mat2 \<Rightarrow> mat2" where
  "msub A B = (vsub (fst A) (fst B), vsub (snd A) (snd B))"

definition mscale :: "real \<Rightarrow> mat2 \<Rightarrow> mat2" where
  "mscale c A = (smul c (fst A), smul c (snd A))"

definition transpose_m :: "mat2 \<Rightarrow> mat2" where
  "transpose_m A = ((fst (fst A), fst (snd A)), (snd (fst A), snd (snd A)))"

definition matmul :: "mat2 \<Rightarrow> mat2 \<Rightarrow> mat2" where
  "matmul A B =
     ((dot (fst A) (fst (transpose_m B)), dot (fst A) (snd (transpose_m B))),
      (dot (snd A) (fst (transpose_m B)), dot (snd A) (snd (transpose_m B))))"

definition outer_product :: "vec2 \<Rightarrow> vec2 \<Rightarrow> mat2" where
  "outer_product a b = ((fst a * fst b, fst a * snd b), (snd a * fst b, snd a * snd b))"

definition diag_get :: "mat2 \<Rightarrow> nat \<Rightarrow> real" where
  \<comment> \<open>\<^verbatim>\<open>sig[d, d]\<close> for \<open>d\<close> in \<open>{0, 1}\<close>\<close>
  "diag_get A d = (if d = 0 then fst (fst A) else snd (snd A))"

definition diag_set :: "mat2 \<Rightarrow> nat \<Rightarrow> real \<Rightarrow> mat2" where
  \<comment> \<open>\<^verbatim>\<open>sig[d, d] = s\<close>\<close>
  "diag_set A d s = (if d = 0 then ((s, snd (fst A)), snd A) else (fst A, (fst (snd A), s)))"

definition cast_int :: "real \<Rightarrow> int" where
  \<comment> \<open>Taichi's \<^verbatim>\<open>cast(int)\<close> of a float drops the fraction (rounds toward zero)\<close>
  "cast_int r = (if 0 \<le> r then \<lfloor>r\<rfloor> else \<lceil>r\<rceil>)"

subsection \<open>Constants of \<^verbatim>\<open>Mpm.__init__\<close>, as functions of \<^verbatim>\<open>quality\<close>\<close>

definition MATERIAL_LIQUID :: int where "MATERIAL_LIQUID = 0"
definition MATERIAL_JELLY :: int where "MATERIAL_JELLY = 1"
definition MATERIAL_SNOW :: int where "MATERIAL_SNOW = 2"

definition particle_count :: "nat \<Rightarrow> nat" where
  "particle_count quality = 20000 * quality ^ 2"

definition grid_res :: "nat \<Rightarrow> int" where
  "grid_res quality = 128 * int quality"

definition dx :: "nat \<Rightarrow> real" where
  "dx quality = 1 / real_of_int (grid_res quality)"

definition inv_dx :: "nat \<Rightarrow> real" where
  "inv_dx quality = real_of_int (grid_res quality)"

definition dt :: "nat \<Rightarrow> real" where
  "dt quality = (1 / 10000) / real quality"

definition p_vol :: "nat \<Rightarrow> real" where
  "p_vol quality = (dx quality * (1 / 2)) ^ 2"

definition p_rho :: real where "p_rho = 1"

definition p_mass :: "nat \<Rightarrow> real" where
  "p_mass quality = p_vol quality * p_rho"

definition E :: real where "E = 15000"
definition nu :: real where "nu = 4 / 10"
definition mu_0 :: real where "mu_0 = E / (2 * (1 + nu))"
definition lambda_0 :: real where "lambda_0 = E * nu / ((1 + nu) / (1 - 2 * nu))"
definition g :: vec2 where "g = (0, - (98 / 10))"
definition mu_boundary :: real where "mu_boundary = 8 / 10"

subsection \<open>Particles and grid\<close>

text \<open>
  The particle fields \<^verbatim>\<open>x, v, C, F, material, color, color_id, Jp\<close> all have the shape
  \<^verbatim>\<open>particle_count\<close>; entry \<open>p\<close> of each of them is one record here, and the fields
  together are the list of these records. The two grid fields are functions of the node
  index; a node is in the grid when both indices lie in \<open>[0, grid_res)\<close>.
\<close>

record particle =
  x :: vec2
  v :: vec2
  C :: mat2
  F :: mat2
  material :: int
  color :: "real \<times> real \<times> real"
  color_id :: real
  Jp :: real

record Mpm =
  particles :: "particle list"
  grid_m :: "int \<times> int \<Rightarrow> real"
  grid_v :: "int \<times> int \<Rightarrow> vec2"

definition in_grid :: "nat \<Rightarrow> int \<times> int \<Rightarrow> bool" where
  "in_grid quality node =
     (0 \<le> fst node \<and> fst node < grid_res quality \<and> 0 \<le> snd node \<and> snd node < grid_res quality)"

definition grid_nodes :: "nat \<Rightarrow> (int \<times> int) set" where
  "grid_nodes quality = {0..<grid_res quality} \<times> {0..<grid_res quality}"

definition total_mass :: "nat \<Rightarrow> (int \<times> int \<Rightarrow> real) \<Rightarrow> real" where
  \<comment> \<open>the sum of \<^verbatim>\<open>grid_m\<close> over all nodes of the grid\<close>
  "total_mass quality gm = sum gm (grid_nodes quality)"

definition ndrange :: "nat \<Rightarrow> nat \<Rightarrow> (nat \<times> nat) list" where
  "ndrange m n = List.product [0..<m] [0..<n]"

subsection \<open>Reset\<close>

definition reset_grids :: "nat \<Rightarrow> Mpm \<Rightarrow> Mpm" where
  "reset_grids quality s =
     s\<lparr> grid_m := (\<lambda>node. if in_grid quality node then 0 else grid_m s node),
        grid_v := (\<lambda>node. if in_grid quality node then (0, 0) else grid_v s node) \<rparr>"

subsection \<open>Particle to grid\<close>

definition base_of :: "nat \<Rightarrow> vec2 \<Rightarrow> int \<times> int" where
  "base_of quality xp =
     (cast_int (fst xp * inv_dx quality - 1 / 2), cast_int (snd xp * inv_dx quality - 1 / 2))"

definition nbhd_in_grid :: "nat \<Rightarrow> vec2 \<Rightarrow> bool" where
  \<comment> \<open>the 3x3 neighbourhood of a particle at \<open>xp\<close> (base plus offsets 0..2 on each
      axis) lies within the grid\<close>
  "nbhd_in_grid quality xp =
     (let base = base_of quality xp
      in 0 \<le> fst base \<and> fst base + 2 < grid_res quality \<and>
         0 \<le> snd base \<and> snd base + 2 < grid_res quality)"

definition fx_of :: "nat \<Rightarrow> vec2 \<Rightarrow> vec2" where
  "fx_of quality xp =
     (fst xp * inv_dx quality - real_of_int (fst (base_of quality xp)),
      snd xp * inv_dx quality - real_of_int (snd (base_of quality xp)))"

definition kernel_w :: "vec2 \<Rightarrow> vec2 list" where
  \<comment> \<open>the quadratic kernel \<^verbatim>\<open>w\<close>, one vector of per-axis weights for each offset\<close>
  "kernel_w fx =
     [ (1 / 2 * (3 / 2 - fst fx) ^ 2, 1 / 2 * (3 / 2 - snd fx) ^ 2),
       (3 / 4 - (fst fx - 1) ^ 2, 3 / 4 - (snd fx - 1) ^ 2),
       (1 / 2 * (fst fx - 1 / 2) ^ 2, 1 / 2 * (snd fx - 1 / 2) ^ 2) ]"

definition node_weight :: "vec2 \<Rightarrow> nat \<times> nat \<Rightarrow> real" where
  \<comment> \<open>\<^verbatim>\<open>weight = w[i][0] * w[j][1]\<close>\<close>
  "node_weight fx off = fst (kernel_w fx ! fst off) * snd (kernel_w fx ! snd off)"

definition plasticity_step :: "int \<Rightarrow> nat \<Rightarrow> real \<times> mat2 \<times> real \<Rightarrow> real \<times> mat2 \<times> real" where
  \<comment> \<open>one round \<open>d\<close> of the loop over the singular values, on \<open>(Jp[p], sig, J)\<close>\<close>
  "plasticity_step mat d st =
     (let Jp_p = fst st; sig = fst (snd st); J = snd (snd st);
          new_sig = diag_get sig d;
          new_sig = (if mat = MATERIAL_SNOW
                     then min (max (diag_get sig d) (1 - 250)) (1 + 45 / 10000)
                     else new_sig);
          Jp_p = Jp_p * (diag_get sig d / new_sig);
          sig = diag_set sig d new_sig;
          J = J * new_sig
      in (Jp_p, sig, J))"

definition deform_F :: "nat \<Rightarrow> particle \<Rightarrow> mat2" where
  \<comment> \<open>\<^verbatim>\<open>F[p] = (I + dt * C[p]) @ F[p]\<close>\<close>
  "deform_F quality p = matmul (madd identity (mscale (dt quality) (C p))) (F p)"

definition p2g_deform :: "(mat2 \<Rightarrow> mat2 \<times> mat2 \<times> mat2) \<Rightarrow> nat \<Rightarrow> particle \<Rightarrow> particle \<times> mat2" where
  \<comment> \<open>The per-particle part of P2G before the scatter: the particle with \<open>F\<close> and \<open>Jp\<close>
      updated, and the matrix \<^verbatim>\<open>affine\<close>. The decomposition \<^verbatim>\<open>ti.svd\<close> belongs to the
      Taichi library and is the parameter \<open>svd\<close>, returning \<open>(U, sig, V)\<close>.\<close>
  "p2g_deform svd quality p =
     (let F1 = deform_F quality p;
          h = exp (10 * (1 - Jp p));
          h = (if material p = MATERIAL_JELLY then 4 / 10 else h);
          mu = mu_0 * h;
          la = lambda_0 * h;
          mu = (if material p = MATERIAL_LIQUID then 0 else mu);
          U = fst (svd F1); sig = fst (snd (svd F1)); V = snd (snd (svd F1));
          st = fold (plasticity_step (material p)) [0..<2] (Jp p, sig, 1);
          Jp_p = fst st; sig = fst (snd st); J = snd (snd st);
          F2 = (if material p = MATERIAL_LIQUID then mscale (sqrt J) identity
                else if material p = MATERIAL_SNOW then matmul (matmul U sig) (transpose_m V)
                else F1);
          stress = madd (matmul (mscale (2 * mu) (msub F2 (matmul U (transpose_m V))))
                                (transpose_m F2))
                        (mscale (la * J * (J - 1)) identity);
          stress = mscale (- dt quality * p_vol quality * 4 * inv_dx quality * inv_dx quality) stress;
          affine = madd stress (mscale (p_mass quality) (C p))
      in (p\<lparr> F := F2, Jp := Jp_p \<rparr>, affine))"

definition scatter_node ::
  "nat \<Rightarrow> particle \<Rightarrow> mat2 \<Rightarrow> nat \<times> nat \<Rightarrow>
   ((int \<times> int \<Rightarrow> real) \<times> (int \<times> int \<Rightarrow> vec2)) option \<Rightarrow>
   ((int \<times> int \<Rightarrow> real) \<times> (int \<times> int \<Rightarrow> vec2)) option" where
  \<comment> \<open>One round of the loop over the 3x3 neighbourhood. Taichi gives no meaning to an
      index outside a field (an error in debug mode); the model stops with \<open>None\<close>.\<close>
  "scatter_node quality p affine off G =
     (case G of None \<Rightarrow> None
      | Some (gm, gv) \<Rightarrow>
        (let base = base_of quality (x p);
             fx = fx_of quality (x p);
             dpos = smul (dx quality) (vsub (real (fst off), real (snd off)) fx);
             weight = node_weight fx off;
             node = (fst base + int (fst off), snd base + int (snd off))
         in if in_grid quality node
            then Some (gm(node := gm node + weight * p_mass quality),
                       gv(node := vadd (gv node)
                            (smul weight (vadd (smul (p_mass quality) (v p)) (matvec affine dpos)))))
            else None))"

definition p2g_particle ::
  "(mat2 \<Rightarrow> mat2 \<times> mat2 \<times> mat2) \<Rightarrow> nat \<Rightarrow> particle \<Rightarrow>
   (int \<times> int \<Rightarrow> real) \<times> (int \<times> int \<Rightarrow> vec2) \<Rightarrow>
   (particle \<times> (int \<times> int \<Rightarrow> real) \<times> (int \<times> int \<Rightarrow> vec2)) option" where
  "p2g_particle svd quality p G =
     (let p' = fst (p2g_deform svd quality p); affine = snd (p2g_deform svd quality p)
      in case fold (scatter_node quality p' affine) (ndrange 3 3) (Some G) of
           None \<Rightarrow> None
         | Some G' \<Rightarrow> Some (p', G'))"

fun p2g_loop ::
  "(mat2 \<Rightarrow> mat2 \<times> mat2 \<times> mat2) \<Rightarrow> nat \<Rightarrow> particle list \<Rightarrow>
   (int \<times> int \<Rightarrow> real) \<times> (int \<times> int \<Rightarrow> vec2) \<Rightarrow>
   (particle list \<times> (int \<times> int \<Rightarrow> real) \<times> (int \<times> int \<Rightarrow> vec2)) option" where
  "p2g_loop svd quality [] G = Some ([], G)"
| "p2g_loop svd quality (p # ps) G =
     (case p2g_particle svd quality p G of
        None \<Rightarrow> None
      | Some (p', G') \<Rightarrow>
        (case p2g_loop svd quality ps G' of
           None \<Rightarrow> None
         | Some (ps', G'') \<Rightarrow> Some (p' # ps', G'')))"

definition p2g :: "(mat2 \<Rightarrow> mat2 \<times> mat2 \<times> mat2) \<Rightarrow> nat \<Rightarrow> Mpm \<Rightarrow> Mpm option" where
  "p2g svd quality s =
     (case p2g_loop svd quality (particles s) (grid_m s, grid_v s) of
        None \<Rightarrow> None
      | Some (ps, gm, gv) \<Rightarrow> Some (s\<lparr> particles := ps, grid_m := gm, grid_v := gv \<rparr>))"

subsection \<open>Grid operations\<close>

definition limit_box :: "nat \<Rightarrow> int \<times> int \<Rightarrow> vec2 \<Rightarrow> vec2" where
  \<comment> \<open>"limit inside box": the four tests on the node \<open>(i, j)\<close>, in the source's order\<close>
  "limit_box quality node vel =
     (let i = fst node; j = snd node;
          vel = (if i < 3 \<and> fst vel < 0 then (0, snd vel) else vel);
          vel = (if i > grid_res quality - 3 \<and> fst vel > 0 then (0, snd vel) else vel);
          vel = (if j < 3 \<and> snd vel < 0 then (fst vel, 0) else vel);
          vel = (if j > grid_res quality - 3 \<and> snd vel > 0 then (fst vel, 0) else vel)
      in vel)"

definition node_dpos :: "nat \<Rightarrow> int \<times> int \<Rightarrow> vec2" where
  \<comment> \<open>the node's position relative to the centre \<open>(0.5, 0.5)\<close>\<close>
  "node_dpos quality node =
     (real_of_int (fst node) * dx quality - 1 / 2, real_of_int (snd node) * dx quality - 1 / 2)"

definition new_tangential :: "real \<Rightarrow> real \<Rightarrow> real \<Rightarrow> real" where
  \<comment> \<open>the \<^verbatim>\<open>if omega > v_tangential\<close> statement\<close>
  "new_tangential omega v_tangential v_radial =
     (if omega > v_tangential
      then min omega (v_tangential + mu_boundary * v_radial)
      else max omega (v_tangential - mu_boundary * v_radial))"

definition limit_circle :: "nat \<Rightarrow> real \<Rightarrow> int \<times> int \<Rightarrow> vec2 \<Rightarrow> vec2" where
  \<comment> \<open>"limit inside circle"\<close>
  "limit_circle quality omega node vel =
     (let dpos = node_dpos quality node
      in if vnorm dpos \<ge> 1 / 2 \<and> dot dpos vel > 0
         then (let v_radial = dot dpos vel / vnorm dpos;
                   v_tangential = cross dpos vel / vnorm dpos;
                   v_tangential = new_tangential omega v_tangential v_radial
               in smul v_tangential (sdiv (matvec ((0, - 1), (1, 0)) dpos) (vnorm dpos)))
         else vel)"

definition grid_op :: "nat \<Rightarrow> real \<Rightarrow> int \<times> int \<Rightarrow> real \<Rightarrow> vec2 \<Rightarrow> vec2" where
  \<comment> \<open>the new \<^verbatim>\<open>grid_v[i, j]\<close> of a node of mass \<open>m\<close> and momentum \<open>mom\<close>\<close>
  "grid_op quality omega node m mom =
     (if m > 0
      then (let vel = sdiv mom m;
                vel = vadd vel (smul (dt quality) g);
                vel = limit_box quality node vel
            in limit_circle quality omega node vel)
      else mom)"

definition grid_update :: "nat \<Rightarrow> real \<Rightarrow> Mpm \<Rightarrow> Mpm" where
  "grid_update quality omega s =
     s\<lparr> grid_v := (\<lambda>node. if in_grid quality node
                           then grid_op quality omega node (grid_m s node) (grid_v s node)
                           else grid_v s node) \<rparr>"

subsection \<open>Grid to particle\<close>

definition gather_node ::
  "nat \<Rightarrow> (int \<times> int \<Rightarrow> vec2) \<Rightarrow> particle \<Rightarrow> nat \<times> nat \<Rightarrow>
   (vec2 \<times> mat2) option \<Rightarrow> (vec2 \<times> mat2) option" where
  \<comment> \<open>one round of the gather loop on \<open>(new_v, new_C)\<close>; as in the scatter, a node
      outside the grid stops the model\<close>
  "gather_node quality gv p off acc =
     (case acc of None \<Rightarrow> None
      | Some (new_v, new_C) \<Rightarrow>
        (let base = base_of quality (x p);
             fx = fx_of quality (x p);
             dpos = vsub (real (fst off), real (snd off)) fx;
             node = (fst base + int (fst off), snd base + int (snd off));
             weight = node_weight fx off
         in if in_grid quality node
            then (let g_v = gv node
                  in Some (vadd new_v (smul weight g_v),
                           madd new_C (mscale (4 * inv_dx quality * weight) (outer_product g_v dpos))))
            else None))"

definition g2p_particle :: "nat \<Rightarrow> (int \<times> int \<Rightarrow> vec2) \<Rightarrow> particle \<Rightarrow> particle option" where
  "g2p_particle quality gv p =
     (case fold (gather_node quality gv p) (ndrange 3 3) (Some ((0, 0), ((0, 0), (0, 0)))) of
        None \<Rightarrow> None
      | Some (new_v, new_C) \<Rightarrow>
          Some (p\<lparr> v := new_v, C := new_C, x := vadd (x p) (smul (dt quality) new_v) \<rparr>))"

fun g2p_loop :: "nat \<Rightarrow> (int \<times> int \<Rightarrow> vec2) \<Rightarrow> particle list \<Rightarrow> particle list option" where
  "g2p_loop quality gv [] = Some []"
| "g2p_loop quality gv (p # ps) =
     (case g2p_particle quality gv p of
        None \<Rightarrow> None
      | Some p' \<Rightarrow>
        (case g2p_loop quality gv ps of None \<Rightarrow> None | Some ps' \<Rightarrow> Some (p' # ps')))"

definition g2p :: "nat \<Rightarrow> Mpm \<Rightarrow> Mpm option" where
  "g2p quality s =
     (case g2p_loop quality (grid_v s) (particles s) of
        None \<Rightarrow> None
      | Some ps \<Rightarrow> Some (s\<lparr> particles := ps \<rparr>))"

subsection \<open>The sub-step\<close>

definition substep :: "(mat2 \<Rightarrow> mat2 \<times> mat2 \<times> mat2) \<Rightarrow> nat \<Rightarrow> real \<Rightarrow> Mpm \<Rightarrow> Mpm option" where
  "substep svd quality omega s =
     (case p2g svd quality (reset_grids quality s) of
        None \<Rightarrow> None
      | Some s1 \<Rightarrow> g2p quality (grid_update quality omega s1))"

subsection \<open>Sample data\<close>

text \<open>
  Concrete inputs at which the results below are instantiated: a decomposition that is a
  singular value decomposition of every diagonal matrix with non-negative entries, a
  freshly initialised jelly particle at the centre of the domain, a snow particle
  compressed to half its size on both axes, and two solver states.
\<close>

definition svd_diag :: "mat2 \<Rightarrow> mat2 \<times> mat2 \<times> mat2" where
  "svd_diag A = (identity, A, identity)"

definition jelly_particle :: particle where
  "jelly_particle = \<lparr> x = (1 / 2, 1 / 2), v = (0, 0), C = ((0, 0), (0, 0)), F = identity,
      material = MATERIAL_JELLY, color = (1, 0, 0), color_id = 0, Jp = 1 \<rparr>"

definition snow_particle :: particle where
  "snow_particle = \<lparr> x = (1 / 2, 1 / 2), v = (0, 0), C = ((0, 0), (0, 0)),
      F = ((1 / 2, 0), (0, 1 / 2)),
      material = MATERIAL_SNOW, color = (1, 1, 1), color_id = 0, Jp = 1 \<rparr>"

definition one_jelly :: Mpm where
  "one_jelly = \<lparr> particles = [jelly_particle], grid_m = (\<lambda>node. 0), grid_v = (\<lambda>node. (0, 0)) \<rparr>"

definition moving_grid :: Mpm where
  "moving_grid = \<lparr> particles = [], grid_m = (\<lambda>node. 1), grid_v = (\<lambda>node. (1, 0)) \<rparr>"

section \<open>Properties of the reflection tracer\<close>

lemma reflection_matrix_unit:
  fixes dx' dy' :: real
  assumes "dx' * dx' + dy' * dy' \<noteq> 0"
  defines "a \<equiv> (dx' * dx' - dy' * dy') / (dx' * dx' + dy' * dy')"
  defines "b \<equiv> (2 * dx' * dy') / (dx' * dx' + dy' * dy')"
  shows "a * a + b * b = 1"
proof -
  have "a * a + b * b
        = ((dx' * dx' - dy' * dy')\<^sup>2 + (2 * dx' * dy')\<^sup>2) / (dx' * dx' + dy' * dy')\<^sup>2"
    by (simp add: a_def b_def power2_eq_square add_divide_distrib)
  also have "(dx' * dx' - dy' * dy')\<^sup>2 + (2 * dx' * dy')\<^sup>2 = (dx' * dx' + dy' * dy')\<^sup>2"
    by (simp add: power2_eq_square algebra_simps)
  finally show ?thesis using assms(1) by simp
qed

lemma reflection_twice:
  assumes "fst (vsub p1 p0) * fst (vsub p1 p0) + snd (vsub p1 p0) * snd (vsub p1 p0) \<noteq> 0"
  shows "reflection (reflection q p0 p1) p0 p1 = q"
proof -
  define dx' where "dx' = fst (vsub p1 p0)"
  define dy' where "dy' = snd (vsub p1 p0)"
  define a where "a = (dx' * dx' - dy' * dy') / (dx' * dx' + dy' * dy')"
  define b where "b = (2 * dx' * dy') / (dx' * dx' + dy' * dy')"
  from assms have nz: "dx' * dx' + dy' * dy' \<noteq> 0" by (simp add: dx'_def dy'_def)
  have ab: "a * a + b * b = 1"
    unfolding a_def b_def using nz by (rule reflection_matrix_unit)
  have r: "reflection w p0 p1 = vadd p0 (matvec ((a, b), (b, - a)) (vsub w p0))" for w
    by (simp add: reflection_def dx'_def dy'_def a_def b_def Let_def)
  define s where "s = fst (vsub q p0)"
  define t where "t = snd (vsub q p0)"
  have 1: "a * (a * s + b * t) + b * (b * s - a * t) = (a * a + b * b) * s"
    by (simp add: algebra_simps)
  have 2: "b * (a * s + b * t) - a * (b * s - a * t) = (a * a + b * b) * t"
    by (simp add: algebra_simps)
  have "vsub (reflection q p0 p1) p0 = (a * s + b * t, b * s - a * t)"
    by (simp add: r vadd_def vsub_def matvec_def dot_def s_def t_def)
  then have "reflection (reflection q p0 p1) p0 p1 = vadd p0 (s, t)"
    by (simp add: r [of "reflection q p0 p1"] matvec_def dot_def 1 2 ab)
  also have "\<dots> = q" by (simp add: vadd_def vsub_def prod_eq_iff s_def t_def)
  finally show ?thesis .
qed

lemma intersection_same: "intersection src src b0 b1 = src"
  by (simp add: intersection_def vsub_def cross_def)

lemma closest_same: "fold (closest_step R src src) ks (src, 0) = (src, 0)"
  by (induction ks) (simp_all add: closest_step_def intersection_same vsub_def dot_def)

lemma tracing_iter_same: "tracing_iter R (src, src) = None"
  by (simp add: tracing_iter_def closest_def closest_same vsub_def vnorm_def)

lemma tracing_at_center:
  assumes "center R = (real_of_int i, real_of_int j)"
  shows "tracing R i j = (real_of_int i, real_of_int j)"
proof -
  have "(100 :: nat) = Suc 99" by simp
  then have "tracing R i j
      = tracing_loop R (Suc 99) ((real_of_int i, real_of_int j), (real_of_int i, real_of_int j))"
    by (simp only: tracing_def assms)
  also have "\<dots> = (real_of_int i, real_of_int j)"
    by (simp only: tracing_loop.simps tracing_iter_same option.case snd_conv)
  finally show ?thesis .
qed

lemma length_linspace: "length (linspace start stop num) = num"
  by (simp add: linspace_def)

lemma nth_linspace:
  "k < num \<Longrightarrow> linspace start stop num ! k = start + real k * ((stop - start) / real (num - 1))"
  by (simp add: linspace_def)

subsection \<open>Two reflections in binary32\<close>

text \<open>
  Rounding is determined by any integer within \<open>1/2\<close> of the scaled magnitude. The steps
  that follow evaluate, operation by operation, the reflection of the pixel \<open>(320, 324)\<close>
  in the mirror through \<open>(5452595/16384, 256)\<close> and \<open>(9166275/32768, 2695505/8192)\<close>,
  and then the reflection of the result in the same mirror. The two points are the
  binary32 numbers nearest to the first two vertices \<open>(332.8, 256)\<close> and
  \<open>(256 + 76.8 cos(2 pi / 5), 256 + 76.8 sin(2 pi / 5))\<close> of the polygon with centre \<open>(256, 256)\<close>,
  five mirrors and radius \<open>76.8\<close>; the pixel lies just beyond that mirror.
\<close>

lemma rne_eqI:
  assumes "\<bar>y - real_of_int m\<bar> < 1 / 2"
  shows "rne y = m"
proof (cases "real_of_int m \<le> y")
  case True
  with assms have "\<lfloor>y\<rfloor> = m" by (intro floor_unique) auto
  with assms True show ?thesis by (simp add: rne_def Let_def)
next
  case False
  with assms have f: "\<lfloor>y\<rfloor> = m - 1" by (intro floor_unique) auto
  from assms False have "y - real_of_int (m - 1) > 1 / 2" by simp
  with f show ?thesis by (simp add: rne_def Let_def)
qed

lemma f32_scale_up:
  "k \<le> n \<Longrightarrow> 0 < y \<Longrightarrow> 2 ^ 23 \<le> y * 2 ^ k \<Longrightarrow> y * 2 ^ k < 2 ^ 24 \<Longrightarrow>
   1 / 2 ^ 149 \<le> u / 2 ^ k \<Longrightarrow> f32_scale n y u = (y * 2 ^ k, u / 2 ^ k)"
proof (induction k arbitrary: n y u)
  case 0
  then show ?case by (cases n) simp_all
next
  case (Suc k)
  from Suc.prems(1) obtain n' where n: "n = Suc n'" and kn: "k \<le> n'" by (cases n) simp_all
  have p: "(1 :: real) \<le> 2 ^ k" by simp
  from Suc.prems(2) have "y * 2 * 1 \<le> y * 2 * 2 ^ k"
    by (intro mult_left_mono) simp_all
  with Suc.prems(4) have small: "y < 2 ^ 23" by simp
  have "(0 :: real) < 1 / 2 ^ 149" by simp
  also note Suc.prems(5)
  finally have "0 < u" by (simp add: zero_less_divide_iff)
  have "u / 2 ^ Suc k \<le> u / 2 ^ 1"
    using \<open>0 < u\<close> by (intro divide_left_mono power_increasing) simp_all
  also have "\<dots> < u" using \<open>0 < u\<close> by simp
  finally have "u / 2 ^ Suc k < u" .
  with Suc.prems(5) have big: "1 / 2 ^ 149 < u" by (rule le_less_trans)
  have "f32_scale n y u = f32_scale n' (2 * y) (u / 2)"
    using small big by (simp add: n)
  also have "\<dots> = (2 * y * 2 ^ k, u / 2 / 2 ^ k)"
    using kn Suc.prems(2,3,4,5) by (intro Suc.IH) (simp_all add: mult.assoc mult.left_commute)
  finally show ?case by (simp add: mult.assoc mult.left_commute)
qed

lemma f32_eqI:
  assumes "r \<noteq> 0" and "k \<le> 149"
    and "2 ^ 23 \<le> \<bar>r\<bar> * 2 ^ k" and "\<bar>r\<bar> * 2 ^ k < 2 ^ 24"
    and "\<bar>\<bar>r\<bar> * 2 ^ k - real_of_int m\<bar> < 1 / 2"
    and "res = sgn r * real_of_int m / 2 ^ k"
  shows "f32 r = res"
proof -
  have "(2 :: real) ^ k \<le> 2 ^ 149" using assms(2) by (intro power_increasing) simp_all
  then have "1 / 2 ^ 149 \<le> (1 :: real) / 2 ^ k" by (simp add: field_simps)
  with assms(1,2,3,4) have "f32_scale 300 \<bar>r\<bar> 1 = (\<bar>r\<bar> * 2 ^ k, 1 / 2 ^ k)"
    by (intro f32_scale_up) simp_all
  with assms(1) rne_eqI [OF assms(5)] show ?thesis
    by (simp add: f32_def Let_def assms(6))
qed

lemma f32_step_1: "fsub (9166275 / 32768) (5452595 / 16384) = - (1738915 / 32768)"
  unfolding fsub_def by (rule f32_eqI [where k = 18 and m = 13911320]) simp_all

lemma f32_step_2: "fsub (2695505 / 8192) 256 = 598353 / 8192"
  unfolding fsub_def by (rule f32_eqI [where k = 17 and m = 9573648]) simp_all

lemma f32_step_3: "fmul (- (1738915 / 32768)) (- (1738915 / 32768)) = 5767489 / 2048"
  unfolding fmul_def by (rule f32_eqI [where k = 12 and m = 11534978]) simp_all

lemma f32_step_4: "fmul (598353 / 8192) (598353 / 8192) = 682881 / 128"
  unfolding fmul_def by (rule f32_eqI [where k = 11 and m = 10926096]) simp_all

lemma f32_step_5: "fsub (5767489 / 2048) (682881 / 128) = - (5158607 / 2048)"
  unfolding fsub_def by (rule f32_eqI [where k = 12 and m = 10317214]) simp_all

lemma f32_step_6: "fadd (5767489 / 2048) (682881 / 128) = 16693585 / 2048"
  unfolding fadd_def by (rule f32_eqI [where k = 11 and m = 16693585]) simp_all

lemma f32_step_7: "fdiv (- (5158607 / 2048)) (16693585 / 2048) = - (10368901 / 33554432)"
  unfolding fdiv_def by (rule f32_eqI [where k = 25 and m = 10368901]) simp_all

lemma f32_step_8: "fmul 2 (- (1738915 / 32768)) = - (1738915 / 16384)"
  unfolding fmul_def by (rule f32_eqI [where k = 17 and m = 13911320]) simp_all

lemma f32_step_9: "fmul (- (1738915 / 16384)) (598353 / 8192) = - (15876541 / 2048)"
  unfolding fmul_def by (rule f32_eqI [where k = 11 and m = 15876541]) simp_all

lemma f32_step_10: "fdiv (- (15876541 / 2048)) (16693585 / 2048) = - (15956079 / 16777216)"
  unfolding fdiv_def by (rule f32_eqI [where k = 24 and m = 15956079]) simp_all

lemma f32_step_11: "fsub 320 (5452595 / 16384) = - (209715 / 16384)"
  unfolding fsub_def by (rule f32_eqI [where k = 20 and m = 13421760]) simp_all

lemma f32_step_12: "fsub 324 256 = 68"
  unfolding fsub_def by (rule f32_eqI [where k = 17 and m = 8912896]) simp_all

lemma f32_step_13: "fmul (- (10368901 / 33554432)) (- (209715 / 16384)) = 8295113 / 2097152"
  unfolding fmul_def by (rule f32_eqI [where k = 22 and m = 16590226]) simp_all

lemma f32_step_14: "fmul (- (15956079 / 16777216)) 68 = - (8476667 / 131072)"
  unfolding fmul_def by (rule f32_eqI [where k = 17 and m = 8476667]) simp_all

lemma f32_step_15: "fadd (8295113 / 2097152) (- (8476667 / 131072)) = - (15916445 / 262144)"
  unfolding fadd_def by (rule f32_eqI [where k = 18 and m = 15916445]) simp_all

lemma f32_step_16: "fadd (5452595 / 16384) (- (15916445 / 262144)) = 4457817 / 16384"
  unfolding fadd_def by (rule f32_eqI [where k = 15 and m = 8915634]) simp_all

lemma f32_step_17: "fmul (- (15956079 / 16777216)) (- (209715 / 16384)) = 12764851 / 1048576"
  unfolding fmul_def by (rule f32_eqI [where k = 20 and m = 12764851]) simp_all

lemma f32_step_18: "fmul (- (- (10368901 / 33554432))) 68 = 11016957 / 524288"
  unfolding fmul_def by (rule f32_eqI [where k = 19 and m = 11016957]) simp_all

lemma f32_step_19: "fadd (12764851 / 1048576) (11016957 / 524288) = 8699691 / 262144"
  unfolding fadd_def by (rule f32_eqI [where k = 18 and m = 8699691]) simp_all

lemma f32_step_20: "fadd 256 (8699691 / 262144) = 9476069 / 32768"
  unfolding fadd_def by (rule f32_eqI [where k = 15 and m = 9476069]) simp_all

lemma f32_step_21: "fsub (4457817 / 16384) (5452595 / 16384) = - (497389 / 8192)"
  unfolding fsub_def by (rule f32_eqI [where k = 18 and m = 15916448]) simp_all

lemma f32_step_22: "fsub (9476069 / 32768) 256 = 1087461 / 32768"
  unfolding fsub_def by (rule f32_eqI [where k = 18 and m = 8699688]) simp_all

lemma f32_step_23: "fmul (- (10368901 / 33554432)) (- (497389 / 8192)) = 9836917 / 524288"
  unfolding fmul_def by (rule f32_eqI [where k = 19 and m = 9836917]) simp_all

lemma f32_step_24: "fmul (- (15956079 / 16777216)) (1087461 / 32768) = - (4136947 / 131072)"
  unfolding fmul_def by (rule f32_eqI [where k = 19 and m = 16547788]) simp_all

lemma f32_step_25: "fadd (9836917 / 524288) (- (4136947 / 131072)) = - (6710871 / 524288)"
  unfolding fadd_def by (rule f32_eqI [where k = 20 and m = 13421742]) simp_all

lemma f32_step_26: "fadd (5452595 / 16384) (- (6710871 / 524288)) = 10485761 / 32768"
  unfolding fadd_def by (rule f32_eqI [where k = 15 and m = 10485761]) simp_all

lemma f32_step_27: "fmul (- (15956079 / 16777216)) (- (497389 / 8192)) = 473045 / 8192"
  unfolding fmul_def by (rule f32_eqI [where k = 18 and m = 15137440]) simp_all

lemma f32_step_28: "fmul (- (- (10368901 / 33554432))) (1087461 / 32768) = 10753417 / 1048576"
  unfolding fmul_def by (rule f32_eqI [where k = 20 and m = 10753417]) simp_all

lemma f32_step_29: "fadd (473045 / 8192) (10753417 / 1048576) = 8912897 / 131072"
  unfolding fadd_def by (rule f32_eqI [where k = 17 and m = 8912897]) simp_all

lemma f32_step_30: "fadd 256 (8912897 / 131072) = 324"
  unfolding fadd_def by (rule f32_eqI [where k = 15 and m = 10616832]) simp_all

lemma reflection_f32_once:
  "reflection_f32 (320, 324) (5452595 / 16384, 256) (9166275 / 32768, 2695505 / 8192) = (4457817 / 16384, 9476069 / 32768)"
  unfolding reflection_f32_def Let_def fst_conv snd_conv
  by (simp only: f32_step_1 f32_step_2 f32_step_3 f32_step_4 f32_step_5 f32_step_6 f32_step_7 f32_step_8 f32_step_9 f32_step_10 f32_step_11 f32_step_12 f32_step_13 f32_step_14 f32_step_15 f32_step_16 f32_step_17 f32_step_18 f32_step_19 f32_step_20 f32_step_21 f32_step_22 f32_step_23 f32_step_24 f32_step_25 f32_step_26 f32_step_27 f32_step_28 f32_step_29 f32_step_30)

lemma reflection_f32_back:
  "reflection_f32 (4457817 / 16384, 9476069 / 32768) (5452595 / 16384, 256) (9166275 / 32768, 2695505 / 8192) = (10485761 / 32768, 324)"
  unfolding reflection_f32_def Let_def fst_conv snd_conv
  by (simp only: f32_step_1 f32_step_2 f32_step_3 f32_step_4 f32_step_5 f32_step_6 f32_step_7 f32_step_8 f32_step_9 f32_step_10 f32_step_11 f32_step_12 f32_step_13 f32_step_14 f32_step_15 f32_step_16 f32_step_17 f32_step_18 f32_step_19 f32_step_20 f32_step_21 f32_step_22 f32_step_23 f32_step_24 f32_step_25 f32_step_26 f32_step_27 f32_step_28 f32_step_29 f32_step_30)

section \<open>Properties of the solver\<close>

subsection \<open>Particle to grid: the mass on the grid\<close>

lemma finite_grid_nodes: "finite (grid_nodes quality)"
  by (simp add: grid_nodes_def)

lemma in_grid_nodes: "in_grid quality node \<longleftrightarrow> node \<in> grid_nodes quality"
  by (cases node) (auto simp add: in_grid_def grid_nodes_def)

lemma total_mass_update:
  assumes "in_grid quality node"
  shows "total_mass quality (gm(node := gm node + c)) = total_mass quality gm + c"
proof -
  have fin: "finite (grid_nodes quality)" by (rule finite_grid_nodes)
  have mem: "node \<in> grid_nodes quality" using assms by (simp add: in_grid_nodes)
  have "sum (gm(node := gm node + c)) (grid_nodes quality)
        = (gm(node := gm node + c)) node + sum (gm(node := gm node + c)) (grid_nodes quality - {node})"
    using fin mem by (rule sum.remove)
  also have "sum (gm(node := gm node + c)) (grid_nodes quality - {node}) = sum gm (grid_nodes quality - {node})"
    by (rule sum.cong) auto
  also have "(gm(node := gm node + c)) node + sum gm (grid_nodes quality - {node})
        = c + (gm node + sum gm (grid_nodes quality - {node}))" by simp
  also have "gm node + sum gm (grid_nodes quality - {node}) = sum gm (grid_nodes quality)"
    using sum.remove [OF fin mem, of gm] by simp
  finally show ?thesis by (simp add: total_mass_def)
qed

lemma scatter_None: "fold (scatter_node quality p affine) offs None = None"
  by (induction offs) (simp_all add: scatter_node_def)

lemma scatter_fold_mass:
  "fold (scatter_node quality p affine) offs (Some (gm, gv)) = Some (gm', gv') \<Longrightarrow>
   total_mass quality gm' = total_mass quality gm
      + (\<Sum>off\<leftarrow>offs. node_weight (fx_of quality (x p)) off) * p_mass quality"
proof (induction offs arbitrary: gm gv)
  case Nil
  then show ?case by simp
next
  case (Cons off offs)
  let ?node = "(fst (base_of quality (x p)) + int (fst off), snd (base_of quality (x p)) + int (snd off))"
  show ?case
  proof (cases "in_grid quality ?node")
    case False
    then have "scatter_node quality p affine off (Some (gm, gv)) = None"
      by (simp add: scatter_node_def Let_def)
    with Cons.prems show ?thesis by (simp add: scatter_None)
  next
    case True
    define c where "c = node_weight (fx_of quality (x p)) off * p_mass quality"
    from True obtain gv1 where
      st: "scatter_node quality p affine off (Some (gm, gv)) = Some (gm(?node := gm ?node + c), gv1)"
      by (simp add: scatter_node_def Let_def c_def)
    from Cons.prems st
    have "fold (scatter_node quality p affine) offs (Some (gm(?node := gm ?node + c), gv1)) = Some (gm', gv')"
      by simp
    from Cons.IH [OF this]
    have "total_mass quality gm' = total_mass quality (gm(?node := gm ?node + c))
      + (\<Sum>off\<leftarrow>offs. node_weight (fx_of quality (x p)) off) * p_mass quality" .
    also have "total_mass quality (gm(?node := gm ?node + c)) = total_mass quality gm + c"
      by (rule total_mass_update [OF True])
    finally show ?thesis
      by (simp add: c_def distrib_right)
  qed
qed

lemma scatter_fold_Some:
  "\<forall>off \<in> set offs. in_grid quality (fst (base_of quality (x p)) + int (fst off),
                                       snd (base_of quality (x p)) + int (snd off)) \<Longrightarrow>
   \<exists>G'. fold (scatter_node quality p affine) offs (Some G) = Some G'"
proof (induction offs arbitrary: G)
  case Nil
  then show ?case by simp
next
  case (Cons off offs)
  obtain gm gv where G: "G = (gm, gv)" by (cases G)
  from Cons.prems obtain G1 where "scatter_node quality p affine off (Some G) = Some G1"
    by (simp add: scatter_node_def Let_def G)
  moreover from Cons.prems have "\<exists>G'. fold (scatter_node quality p affine) offs (Some G1) = Some G'"
    by (intro Cons.IH) simp
  ultimately show ?case by simp
qed

lemma ndrange_3_3:
  "ndrange 3 3 = [(0,0),(0,1),(0,2),(1,0),(1,1),(1,2),(2,0),(2,1),(2,2)]"
  by (simp add: ndrange_def upt_rec numeral_eq_Suc)

lemma kernel_sum_one:
  "(\<Sum>off\<leftarrow>ndrange 3 3. node_weight fx off) = 1"
proof -
  obtain a b where fx: "fx = (a, b)" by (cases fx)
  have wx: "1 / 2 * (3 / 2 - a)\<^sup>2 + (3 / 4 - (a - 1)\<^sup>2) + 1 / 2 * (a - 1 / 2)\<^sup>2 = 1" for a :: real
    by (simp add: power2_eq_square algebra_simps)
  define w0 where "w0 = 1 / 2 * (3 / 2 - a)\<^sup>2"
  define w1 where "w1 = 3 / 4 - (a - 1)\<^sup>2"
  define w2 where "w2 = 1 / 2 * (a - 1 / 2)\<^sup>2"
  define u0 where "u0 = 1 / 2 * (3 / 2 - b)\<^sup>2"
  define u1 where "u1 = 3 / 4 - (b - 1)\<^sup>2"
  define u2 where "u2 = 1 / 2 * (b - 1 / 2)\<^sup>2"
  have k: "kernel_w fx = [(w0, u0), (w1, u1), (w2, u2)]"
    by (simp add: kernel_w_def fx w0_def w1_def w2_def u0_def u1_def u2_def)
  have "(\<Sum>off\<leftarrow>ndrange 3 3. node_weight fx off) = (w0 + w1 + w2) * (u0 + u1 + u2)"
    by (simp add: ndrange_3_3 node_weight_def k algebra_simps)
  also have "w0 + w1 + w2 = 1" unfolding w0_def w1_def w2_def by (rule wx)
  also have "u0 + u1 + u2 = 1" unfolding u0_def u1_def u2_def by (rule wx)
  finally show ?thesis by simp
qed

lemma nbhd_in_grid_nodes:
  assumes "nbhd_in_grid quality xp"
  shows "\<forall>off \<in> set (ndrange 3 3). in_grid quality (fst (base_of quality xp) + int (fst off),
                                       snd (base_of quality xp) + int (snd off))"
  using assms by (simp add: nbhd_in_grid_def Let_def ndrange_3_3 in_grid_def)

lemma x_p2g_deform: "x (fst (p2g_deform svd quality p)) = x p"
  by (simp add: p2g_deform_def Let_def)

lemma p2g_particle_mass:
  assumes "nbhd_in_grid quality (x p)"
  shows "\<exists>p' gm' gv'. p2g_particle svd quality p (gm, gv) = Some (p', gm', gv') \<and>
           total_mass quality gm' = total_mass quality gm + p_mass quality"
proof -
  define p1 where "p1 = fst (p2g_deform svd quality p)"
  define aff where "aff = snd (p2g_deform svd quality p)"
  have xp: "x p1 = x p" by (simp add: p1_def x_p2g_deform)
  from nbhd_in_grid_nodes [OF assms] obtain G' where
    f: "fold (scatter_node quality p1 aff) (ndrange 3 3) (Some (gm, gv)) = Some G'"
    using scatter_fold_Some [of "ndrange 3 3" quality p1 aff "(gm, gv)"] by (auto simp add: xp)
  obtain gm' gv' where G': "G' = (gm', gv')" by (cases G')
  from scatter_fold_mass [OF f [unfolded G']]
  have "total_mass quality gm' = total_mass quality gm + p_mass quality"
    by (simp add: kernel_sum_one)
  moreover have "p2g_particle svd quality p (gm, gv) = Some (p1, gm', gv')"
    using f by (simp add: p2g_particle_def Let_def p1_def aff_def G')
  ultimately show ?thesis by blast
qed

lemma p2g_loop_mass:
  "\<forall>p \<in> set ps. nbhd_in_grid quality (x p) \<Longrightarrow>
   \<exists>ps' gm' gv'. p2g_loop svd quality ps (gm, gv) = Some (ps', gm', gv') \<and>
      total_mass quality gm' = total_mass quality gm + real (length ps) * p_mass quality"
proof (induction ps arbitrary: gm gv)
  case Nil
  then show ?case by simp
next
  case (Cons p ps)
  from Cons.prems have "nbhd_in_grid quality (x p)" by simp
  from p2g_particle_mass [OF this] obtain p' gm1 gv1 where
    1: "p2g_particle svd quality p (gm, gv) = Some (p', gm1, gv1)"
    and m1: "total_mass quality gm1 = total_mass quality gm + p_mass quality" by blast
  from Cons.prems have "\<forall>p \<in> set ps. nbhd_in_grid quality (x p)" by simp
  from Cons.IH [OF this] obtain ps' gm' gv' where
    2: "p2g_loop svd quality ps (gm1, gv1) = Some (ps', gm', gv')"
    and m2: "total_mass quality gm' = total_mass quality gm1 + real (length ps) * p_mass quality" by blast
  have "p2g_loop svd quality (p # ps) (gm, gv) = Some (p' # ps', gm', gv')"
    by (simp add: 1 2)
  moreover have "total_mass quality gm' = total_mass quality gm + real (length (p # ps)) * p_mass quality"
    by (simp add: m1 m2 algebra_simps)
  ultimately show ?case by blast
qed



subsection \<open>What a sub-step writes\<close>

lemma p2g_particle_fields:
  assumes "p2g_particle svd quality p G = Some (p', G')"
  shows "p' = fst (p2g_deform svd quality p)"
  using assms by (simp add: p2g_particle_def Let_def split: option.splits)

lemma p2g_loop_map:
  "p2g_loop svd quality ps G = Some (ps', G') \<Longrightarrow>
   ps' = map (\<lambda>p. fst (p2g_deform svd quality p)) ps"
proof (induction ps arbitrary: G ps' G')
  case Nil
  then show ?case by simp
next
  case (Cons p ps)
  from Cons.prems obtain p1 G1 ps1 where
    1: "p2g_particle svd quality p G = Some (p1, G1)"
    and 2: "p2g_loop svd quality ps G1 = Some (ps1, G')"
    and 3: "ps' = p1 # ps1"
    by (auto split: option.splits)
  from Cons.IH [OF 2] p2g_particle_fields [OF 1] 3 show ?case by simp
qed

lemma g2p_particle_static:
  assumes "g2p_particle quality gv p = Some p'"
  shows "material p' = material p" "color p' = color p" "color_id p' = color_id p"
    "Jp p' = Jp p" "F p' = F p"
  using assms by (auto simp add: g2p_particle_def split: option.splits)

lemma g2p_loop_static:
  "g2p_loop quality gv ps = Some ps' \<Longrightarrow>
   map material ps' = map material ps \<and> map color ps' = map color ps \<and>
   map color_id ps' = map color_id ps \<and> map Jp ps' = map Jp ps"
proof (induction ps arbitrary: ps')
  case Nil
  then show ?case by simp
next
  case (Cons p ps)
  from Cons.prems obtain p1 ps1 where
    1: "g2p_particle quality gv p = Some p1"
    and 2: "g2p_loop quality gv ps = Some ps1"
    and 3: "ps' = p1 # ps1"
    by (auto split: option.splits)
  from Cons.IH [OF 2] g2p_particle_static [OF 1] 3 show ?case by simp
qed

lemma p2g_deform_static:
  "material (fst (p2g_deform svd quality p)) = material p"
  "color (fst (p2g_deform svd quality p)) = color p"
  "color_id (fst (p2g_deform svd quality p)) = color_id p"
  by (simp_all add: p2g_deform_def Let_def)

lemma substep_particles:
  assumes "substep svd quality omega s = Some s'"
  shows "\<exists>gv. g2p_loop quality gv (map (\<lambda>p. fst (p2g_deform svd quality p)) (particles s))
           = Some (particles s')"
proof -
  from assms obtain s1 where
    1: "p2g svd quality (reset_grids quality s) = Some s1"
    and 2: "g2p quality (grid_update quality omega s1) = Some s'"
    by (auto simp add: substep_def split: option.splits)
  from 1 obtain ps1 G1 where
    l: "p2g_loop svd quality (particles s) (grid_m (reset_grids quality s), grid_v (reset_grids quality s)) = Some (ps1, G1)"
    and p1: "particles s1 = ps1"
    by (auto simp add: p2g_def reset_grids_def split: option.splits)
  from 2 have "g2p_loop quality (grid_v (grid_update quality omega s1)) (particles s1) = Some (particles s')"
    by (auto simp add: g2p_def grid_update_def split: option.splits)
  with p2g_loop_map [OF l] p1
  have "g2p_loop quality (grid_v (grid_update quality omega s1))
          (map (\<lambda>p. fst (p2g_deform svd quality p)) (particles s)) = Some (particles s')"
    by simp
  then show ?thesis by (rule exI [where x = "grid_v (grid_update quality omega s1)"])
qed

lemma substep_static:
  assumes "substep svd quality omega s = Some s'"
  shows "length (particles s') = length (particles s) \<and>
         map material (particles s') = map material (particles s) \<and>
         map color (particles s') = map color (particles s) \<and>
         map color_id (particles s') = map color_id (particles s)"
proof -
  from substep_particles [OF assms] obtain gv where
    "g2p_loop quality gv (map (\<lambda>p. fst (p2g_deform svd quality p)) (particles s)) = Some (particles s')"
    by blast
  from g2p_loop_static [OF this]
  have m: "map material (particles s') = map material (particles s)"
    and c: "map color (particles s') = map color (particles s)"
    and i: "map color_id (particles s') = map color_id (particles s)"
    by (simp_all add: o_def p2g_deform_static)
  from m have "length (particles s') = length (particles s)"
    by (rule map_eq_imp_length_eq)
  with m c i show ?thesis by simp
qed

lemma plasticity_step_not_snow:
  assumes "mat \<noteq> MATERIAL_SNOW" "diag_get sig d \<noteq> 0"
  shows "plasticity_step mat d (jp, sig, J) = (jp, sig, J * diag_get sig d)"
  using assms by (simp add: plasticity_step_def Let_def diag_set_def diag_get_def)

lemma Jp_p2g_deform_not_snow:
  assumes "material p \<noteq> MATERIAL_SNOW"
    and "diag_get (fst (snd (svd (deform_F quality p)))) 0 \<noteq> 0"
    and "diag_get (fst (snd (svd (deform_F quality p)))) 1 \<noteq> 0"
  shows "Jp (fst (p2g_deform svd quality p)) = Jp p"
proof -
  have u: "[0..<2] = [0, 1]" by (simp add: upt_rec numeral_eq_Suc)
  show ?thesis
    using assms
    by (simp add: p2g_deform_def Let_def u plasticity_step_not_snow)
qed

lemma substep_Jp_not_snow:
  assumes "substep svd quality omega s = Some s'"
    and "k < length (particles s)"
    and "material (particles s ! k) \<noteq> MATERIAL_SNOW"
    and "diag_get (fst (snd (svd (deform_F quality (particles s ! k))))) 0 \<noteq> 0"
    and "diag_get (fst (snd (svd (deform_F quality (particles s ! k))))) 1 \<noteq> 0"
  shows "Jp (particles s' ! k) = Jp (particles s ! k)"
proof -
  from substep_particles [OF assms(1)] obtain gv where
    "g2p_loop quality gv (map (\<lambda>p. fst (p2g_deform svd quality p)) (particles s)) = Some (particles s')"
    by blast
  from g2p_loop_static [OF this]
  have j: "map Jp (particles s') = map (\<lambda>p. Jp (fst (p2g_deform svd quality p))) (particles s)"
    by (simp add: o_def)
  then have len: "length (particles s') = length (particles s)"
    using map_eq_imp_length_eq by blast
  from j have "map Jp (particles s') ! k = map (\<lambda>p. Jp (fst (p2g_deform svd quality p))) (particles s) ! k"
    by simp
  with assms(2) len have "Jp (particles s' ! k) = Jp (fst (p2g_deform svd quality (particles s ! k)))"
    by simp
  then have "Jp (particles s' ! k) = Jp (fst (p2g_deform svd quality (particles s ! k)))" .
  also have "\<dots> = Jp (particles s ! k)"
    using assms(3,4,5) by (rule Jp_p2g_deform_not_snow)
  finally show ?thesis .
qed

lemma gather_None: "fold (gather_node quality gv p) offs None = None"
  by (induction offs) (simp_all add: gather_node_def)

lemma gather_fold_Some:
  "\<forall>off \<in> set offs. in_grid quality (fst (base_of quality (x p)) + int (fst off),
                                       snd (base_of quality (x p)) + int (snd off)) \<Longrightarrow>
   \<exists>acc'. fold (gather_node quality gv p) offs (Some acc) = Some acc'"
proof (induction offs arbitrary: acc)
  case Nil
  show ?case by (rule exI [of _ acc]) simp
next
  case (Cons off offs)
  from Cons.prems
  have "in_grid quality (fst (base_of quality (x p)) + int (fst off),
                         snd (base_of quality (x p)) + int (snd off))" by simp
  then have "\<exists>acc1. gather_node quality gv p off (Some acc) = Some acc1"
    by (simp add: gather_node_def Let_def case_prod_beta del: split_paired_Ex)
  then obtain acc1 where "gather_node quality gv p off (Some acc) = Some acc1" ..
  moreover from Cons.prems have "\<exists>acc'. fold (gather_node quality gv p) offs (Some acc1) = Some acc'"
    by (intro Cons.IH) simp
  ultimately show ?case by simp
qed

lemma g2p_loop_Some:
  "\<forall>p \<in> set ps. nbhd_in_grid quality (x p) \<Longrightarrow> \<exists>ps'. g2p_loop quality gv ps = Some ps'"
proof (induction ps)
  case Nil
  then show ?case by simp
next
  case (Cons p ps)
  from Cons.prems have "nbhd_in_grid quality (x p)" by simp
  from gather_fold_Some [OF nbhd_in_grid_nodes [OF this]]
  obtain acc' where
    "fold (gather_node quality gv p) (ndrange 3 3) (Some ((0, 0), ((0, 0), (0, 0)))) = Some acc'"
    by blast
  then obtain p' where 1: "g2p_particle quality gv p = Some p'"
    by (cases acc') (simp add: g2p_particle_def)
  from Cons obtain ps' where 2: "g2p_loop quality gv ps = Some ps'" by auto
  show ?case by (simp add: 1 2)
qed

lemma substep_Some:
  assumes "\<forall>p \<in> set (particles s). nbhd_in_grid quality (x p)"
  shows "\<exists>s'. substep svd quality omega s = Some s'"
proof -
  let ?r = "reset_grids quality s"
  have ps: "particles ?r = particles s" by (simp add: reset_grids_def)
  from p2g_loop_mass [OF assms, of svd "grid_m ?r" "grid_v ?r"] obtain ps1 gm1 gv1 where
    l: "p2g_loop svd quality (particles s) (grid_m ?r, grid_v ?r) = Some (ps1, gm1, gv1)" by blast
  then have s1: "p2g svd quality ?r = Some (?r\<lparr> particles := ps1, grid_m := gm1, grid_v := gv1 \<rparr>)"
    by (simp add: p2g_def ps)
  have "ps1 = map (\<lambda>p. fst (p2g_deform svd quality p)) (particles s)"
    by (rule p2g_loop_map [OF l])
  with assms have "\<forall>p \<in> set ps1. nbhd_in_grid quality (x p)"
    by (simp add: x_p2g_deform)
  from g2p_loop_Some [OF this] obtain ps2 where
    "g2p_loop quality (grid_v (grid_update quality omega (?r\<lparr> particles := ps1, grid_m := gm1, grid_v := gv1 \<rparr>))) ps1 = Some ps2"
    by blast
  then show ?thesis
    by (simp add: substep_def s1 g2p_def grid_update_def)
qed

subsection \<open>Grid operations\<close>

lemma limit_box_props:
  "(fst node < 3 \<and> fst vel < 0 \<longrightarrow> fst (limit_box quality node vel) = 0) \<and>
   (fst node > grid_res quality - 3 \<and> fst vel > 0 \<longrightarrow> fst (limit_box quality node vel) = 0) \<and>
   (snd node < 3 \<and> snd vel < 0 \<longrightarrow> snd (limit_box quality node vel) = 0) \<and>
   (snd node > grid_res quality - 3 \<and> snd vel > 0 \<longrightarrow> snd (limit_box quality node vel) = 0)"
  by (simp add: limit_box_def Let_def)

lemma limit_box_full:
  "limit_box quality node vel =
    (if (fst node < 3 \<and> fst vel < 0) \<or> (fst node > grid_res quality - 3 \<and> fst vel > 0) then 0 else fst vel,
     if (snd node < 3 \<and> snd vel < 0) \<or> (snd node > grid_res quality - 3 \<and> snd vel > 0) then 0 else snd vel)"
  by (simp add: limit_box_def Let_def prod_eq_iff)

lemma grid_op_box: "m > 0 \<Longrightarrow> grid_op quality omega node m mom =
   limit_circle quality omega node (limit_box quality node (vadd (sdiv mom m) (smul (dt quality) g)))"
  by (simp add: grid_op_def Let_def)

lemma vnorm_sq: "vnorm a * vnorm a = fst a * fst a + snd a * snd a"
  by (simp add: vnorm_def)

lemma new_tangential_between:
  assumes "0 < vr"
  shows "min vt omega \<le> new_tangential omega vt vr" "new_tangential omega vt vr \<le> max vt omega"
    "\<bar>new_tangential omega vt vr - vt\<bar> \<le> mu_boundary * vr"
    "new_tangential omega vt vr = vt + max (- (mu_boundary * vr)) (min (mu_boundary * vr) (omega - vt))"
  using assms by (auto simp add: new_tangential_def mu_boundary_def min_def max_def)

lemma limit_circle_hit:
  fixes quality :: nat and node :: "int \<times> int" and vel :: vec2 and omega :: real
  assumes "vnorm (node_dpos quality node) \<ge> 1 / 2" "dot (node_dpos quality node) vel > 0"
  defines "dpos \<equiv> node_dpos quality node"
  defines "vt \<equiv> new_tangential omega (cross dpos vel / vnorm dpos) (dot dpos vel / vnorm dpos)"
  shows "limit_circle quality omega node vel = smul vt (sdiv (- snd dpos, fst dpos) (vnorm dpos))"
    "dot dpos (limit_circle quality omega node vel) = 0"
    "cross dpos (limit_circle quality omega node vel) / vnorm dpos = vt"
proof -
  have n: "vnorm dpos > 0" using assms by simp
  show 1: "limit_circle quality omega node vel = smul vt (sdiv (- snd dpos, fst dpos) (vnorm dpos))"
    using assms(1,2) by (simp add: limit_circle_def Let_def dpos_def vt_def matvec_def dot_def)
  show "dot dpos (limit_circle quality omega node vel) = 0"
    by (simp add: 1 dot_def smul_def sdiv_def)
  have "cross dpos (limit_circle quality omega node vel) = vt * (vnorm dpos * vnorm dpos) / vnorm dpos"
    by (simp add: 1 cross_def smul_def sdiv_def vnorm_sq algebra_simps add_divide_distrib diff_divide_distrib)
  then show "cross dpos (limit_circle quality omega node vel) / vnorm dpos = vt"
    using n by simp
qed

lemma limit_circle_miss:
  "\<not> (vnorm (node_dpos quality node) \<ge> 1 / 2 \<and> dot (node_dpos quality node) vel > 0) \<Longrightarrow>
   limit_circle quality omega node vel = vel"
  by (auto simp add: limit_circle_def Let_def)

lemma grid_update_node:
  assumes "in_grid quality node" "grid_m s node > 0"
  shows "grid_v (grid_update quality omega s) node =
     limit_circle quality omega node
       (limit_box quality node (vadd (sdiv (grid_v s node) (grid_m s node)) (smul (dt quality) g)))"
  using assms by (simp add: grid_update_def grid_op_box)

lemma vnorm_axis: "vnorm (a, 0) = \<bar>a\<bar>"
  by (simp add: vnorm_def)

lemma upt_0_2: "[0..<2] = [0, 1]"
  by (simp add: upt_rec numeral_eq_Suc)

lemma plasticity_step_snow:
  "plasticity_step MATERIAL_SNOW d (jp, sig, J) =
     (jp * (diag_get sig d / min (max (diag_get sig d) (- 249)) (2009 / 2000)),
      diag_set sig d (min (max (diag_get sig d) (- 249)) (2009 / 2000)),
      J * min (max (diag_get sig d) (- 249)) (2009 / 2000))"
  by (simp add: plasticity_step_def Let_def)

lemma Jp_invariant_jelly:
  assumes "substep svd quality omega s = Some s'"
    and "\<forall>p \<in> set (particles s). material p = MATERIAL_JELLY \<and> Jp p = 1 \<and>
           diag_get (fst (snd (svd (deform_F quality p)))) 0 \<noteq> 0 \<and>
           diag_get (fst (snd (svd (deform_F quality p)))) 1 \<noteq> 0"
  shows "\<forall>p \<in> set (particles s'). material p = MATERIAL_JELLY \<and> Jp p = 1"
proof
  fix p
  assume "p \<in> set (particles s')"
  then obtain k where k: "k < length (particles s')" and p: "p = particles s' ! k"
    by (auto simp add: in_set_conv_nth)
  from substep_static [OF assms(1)]
  have len: "length (particles s') = length (particles s)"
    and mat: "map material (particles s') = map material (particles s)" by simp_all
  from k len have mem: "particles s ! k \<in> set (particles s)" by simp
  from mat have "map material (particles s') ! k = map material (particles s) ! k" by simp
  with k len have m: "material p = material (particles s ! k)" by (simp add: p)
  from mem assms(2) have j: "material (particles s ! k) = MATERIAL_JELLY" "Jp (particles s ! k) = 1"
    and nz: "diag_get (fst (snd (svd (deform_F quality (particles s ! k))))) 0 \<noteq> 0"
      "diag_get (fst (snd (svd (deform_F quality (particles s ! k))))) 1 \<noteq> 0"
    by simp_all
  from j(1) have ns: "material (particles s ! k) \<noteq> MATERIAL_SNOW"
    by (simp add: MATERIAL_JELLY_def MATERIAL_SNOW_def)
  from k len have k': "k < length (particles s)" by simp
  from substep_Jp_not_snow [OF assms(1) k' ns nz] j m
  show "material p = MATERIAL_JELLY \<and> Jp p = 1" by (simp add: p)
qed

section \<open>The specification, claim by claim\<close>

text \<open>
  C1. The specification says that in P2G every singular value of a snow particle is
  clamped to \<open>[1 - 2.5e-2, 1 + 4.5e-3]\<close>. The source writes the lower bound as
  \<^verbatim>\<open>1 - 2.5e2\<close>, that is \<open>-249\<close>. For a snow particle whose deformation gradient is
  \<open>diag(1/2, 1/2)\<close> the code therefore leaves both singular values at \<open>1/2\<close>, leaves
  \<open>Jp\<close> at \<open>1\<close> and rebuilds the same \<open>F\<close>, where the specified clamp gives
  \<open>39/40\<close> for each singular value.
\<close>

theorem snow_lower_bound_not_applied:
  "Jp (fst (p2g_deform svd_diag 1 snow_particle)) = 1 \<and>
   F (fst (p2g_deform svd_diag 1 snow_particle)) = ((1 / 2, 0), (0, 1 / 2)) \<and>
   plasticity_step MATERIAL_SNOW 0 (1, ((1 / 2, 0), (0, 1 / 2)), 1)
     = (1, ((1 / 2, 0), (0, 1 / 2)), 1 / 2)"
proof -
  have "Jp (fst (p2g_deform svd_diag 1 snow_particle)) = 1 \<and>
        F (fst (p2g_deform svd_diag 1 snow_particle)) = ((1 / 2, 0), (0, 1 / 2))"
    by (simp add: p2g_deform_def deform_F_def snow_particle_def svd_diag_def Let_def upt_0_2
        plasticity_step_def diag_get_def diag_set_def MATERIAL_SNOW_def MATERIAL_LIQUID_def
        MATERIAL_JELLY_def identity_def matmul_def madd_def mscale_def transpose_m_def
        dot_def vadd_def smul_def)
  moreover have "plasticity_step MATERIAL_SNOW 0 (1, ((1 / 2, 0), (0, 1 / 2)), 1)
     = (1, ((1 / 2, 0), (0, 1 / 2)), 1 / 2)"
    by (simp add: plasticity_step_snow diag_get_def diag_set_def)
  ultimately show ?thesis by simp
qed

text \<open>
  C2. In the grid update, take a node of the grid with positive mass, and let \<open>vel\<close> be
  its velocity after normalisation, gravity and the box limit. When the node's position
  relative to the centre has norm at least \<open>1/2\<close> and \<open>vel\<close> has a positive radial
  component, the new velocity is orthogonal to the radial direction, it is its signed
  tangential magnitude times the radial unit vector rotated by +90 degrees, and that
  magnitude is the old tangential component moved toward \<open>omega\<close> by at most \<open>0.8\<close>
  times the radial component: it lies between the old tangential component and
  \<open>omega\<close>.
\<close>

theorem rim_velocity_tangential:
  fixes quality :: nat and omega :: real and s :: Mpm and node :: "int \<times> int"
  defines "dpos \<equiv> node_dpos quality node"
  defines "vel \<equiv> limit_box quality node
                    (vadd (sdiv (grid_v s node) (grid_m s node)) (smul (dt quality) g))"
  defines "new_v \<equiv> grid_v (grid_update quality omega s) node"
  defines "v_radial \<equiv> dot dpos vel / vnorm dpos"
  defines "v_tangential \<equiv> cross dpos vel / vnorm dpos"
  defines "new_t \<equiv> cross dpos new_v / vnorm dpos"
  assumes "in_grid quality node" and "grid_m s node > 0"
    and "vnorm dpos \<ge> 1 / 2" and "dot dpos vel > 0"
  shows "dot dpos new_v = 0 \<and>
         new_v = smul new_t (sdiv (- snd dpos, fst dpos) (vnorm dpos)) \<and>
         new_t = v_tangential
                   + max (- (8 / 10 * v_radial)) (min (8 / 10 * v_radial) (omega - v_tangential)) \<and>
         min v_tangential omega \<le> new_t \<and> new_t \<le> max v_tangential omega \<and>
         \<bar>new_t - v_tangential\<bar> \<le> 8 / 10 * v_radial"
proof -
  have nv: "new_v = limit_circle quality omega node vel"
    unfolding new_v_def vel_def using assms(7,8) by (rule grid_update_node)
  have a: "vnorm (node_dpos quality node) \<ge> 1 / 2" using assms(9) by (simp add: dpos_def)
  have b: "dot (node_dpos quality node) vel > 0" using assms(10) by (simp add: dpos_def)
  have t: "new_t = new_tangential omega v_tangential v_radial"
    unfolding new_t_def nv dpos_def v_tangential_def v_radial_def
    by (rule limit_circle_hit(3) [OF a b])
  have r: "v_radial > 0"
    using assms(9,10) by (simp add: v_radial_def)
  have c1: "dot dpos new_v = 0"
    unfolding nv dpos_def by (rule limit_circle_hit(2) [OF a b])
  have c2: "new_v = smul new_t (sdiv (- snd dpos, fst dpos) (vnorm dpos))"
    unfolding t unfolding nv dpos_def v_tangential_def v_radial_def
    by (rule limit_circle_hit(1) [OF a b])
  have c3: "new_t = v_tangential
                   + max (- (8 / 10 * v_radial)) (min (8 / 10 * v_radial) (omega - v_tangential))"
    using new_tangential_between(4) [OF r, of omega v_tangential]
    by (simp add: t mu_boundary_def)
  have c4: "min v_tangential omega \<le> new_t"
    unfolding t by (rule new_tangential_between(1) [OF r])
  have c5: "new_t \<le> max v_tangential omega"
    unfolding t by (rule new_tangential_between(2) [OF r])
  have c6: "\<bar>new_t - v_tangential\<bar> \<le> 8 / 10 * v_radial"
    using new_tangential_between(3) [OF r, of omega v_tangential]
    by (simp add: t mu_boundary_def)
  from c1 c2 c3 c4 c5 c6 show ?thesis by (intro conjI)
qed

theorem rim_velocity_tangential_witness:
  "in_grid 1 (116, 103) \<and> grid_m moving_grid (116, 103) > 0 \<and>
   vnorm (node_dpos 1 (116, 103)) = 65 / 128 \<and>
   dot (node_dpos 1 (116, 103)) (grid_v (grid_update 1 0 moving_grid) (116, 103)) = 0"
proof -
  have d: "node_dpos 1 (116, 103) = (52 / 128, 39 / 128)"
    by (simp add: node_dpos_def dx_def grid_res_def)
  have "sqrt ((65 / 128)\<^sup>2) = (65 / 128 :: real)"
    by (simp only: real_sqrt_abs abs_of_nonneg)
  then have n: "vnorm (node_dpos 1 (116, 103)) = 65 / 128"
    unfolding vnorm_def d by (simp add: power2_eq_square)
  have h1: "in_grid 1 (116, 103)" by (simp add: in_grid_def grid_res_def)
  have h2: "grid_m moving_grid (116, 103) > 0" by (simp add: moving_grid_def)
  have h3: "vnorm (node_dpos 1 (116, 103)) \<ge> 1 / 2" unfolding n by simp
  have h4: "dot (node_dpos 1 (116, 103))
      (limit_box 1 (116, 103)
        (vadd (sdiv (grid_v moving_grid (116, 103)) (grid_m moving_grid (116, 103)))
              (smul (dt 1) g))) > 0"
    unfolding d
    by (simp add: moving_grid_def limit_box_def grid_res_def sdiv_def vadd_def smul_def
        dt_def g_def dot_def Let_def)
  from rim_velocity_tangential [OF h1 h2 h3 h4, of 0] h1 h2 n show ?thesis by simp
qed



text \<open>
  C4, as the specification states it: reflecting twice returns the point within \<open>1e-6\<close>
  in floating point, for every point and every non-degenerate mirror. In the binary32
  arithmetic of the kernel, the pixel \<open>(320, 324)\<close> reflected twice in the first mirror of
  the program's polygon comes back as \<open>(320 + 2^-15, 324)\<close>: off by \<open>3.05e-5\<close>, one unit
  in the last place at that magnitude.
\<close>

theorem reflection_twice_binary32_counterexample:
  "reflection_f32
     (reflection_f32 (320, 324) (5452595 / 16384, 256) (9166275 / 32768, 2695505 / 8192))
     (5452595 / 16384, 256) (9166275 / 32768, 2695505 / 8192)
     = (10485761 / 32768, 324) \<and>
   1 / 1000000 < \<bar>10485761 / 32768 - (320 :: real)\<bar> \<and>
   fsub (9166275 / 32768) (5452595 / 16384) * fsub (9166275 / 32768) (5452595 / 16384)
     + fsub (2695505 / 8192) 256 * fsub (2695505 / 8192) 256 \<noteq> 0"
proof -
  have "reflection_f32
     (reflection_f32 (320, 324) (5452595 / 16384, 256) (9166275 / 32768, 2695505 / 8192))
     (5452595 / 16384, 256) (9166275 / 32768, 2695505 / 8192)
     = (10485761 / 32768, 324)"
    by (simp only: reflection_f32_once reflection_f32_back)
  moreover have "1 / 1000000 < \<bar>10485761 / 32768 - (320 :: real)\<bar>" by simp
  moreover have
    "fsub (9166275 / 32768) (5452595 / 16384) * fsub (9166275 / 32768) (5452595 / 16384)
     + fsub (2695505 / 8192) 256 * fsub (2695505 / 8192) 256 \<noteq> 0"
    by (simp add: f32_step_1 f32_step_2)
  ultimately show ?thesis by (intro conjI)
qed

text \<open>
  C4, amended. For a mirror line through \<open>p0\<close> and \<open>p1\<close> whose direction \<open>(dx, dy)\<close> has
  \<open>dx^2 + dy^2\<close> nonzero, reflecting any point \<open>q\<close> twice gives \<open>q\<close> back exactly in real
  arithmetic; no absolute tolerance is asserted for the binary32 result.
\<close>

theorem reflection_involution:
  assumes "fst (vsub p1 p0) * fst (vsub p1 p0) + snd (vsub p1 p0) * snd (vsub p1 p0) \<noteq> 0"
  shows "reflection (reflection q p0 p1) p0 p1 = q"
  using assms by (rule reflection_twice)

theorem reflection_involution_witness:
  "reflection (2, 0) (0, 0) (1, 1) = (0, 2) \<and>
   reflection (reflection (2, 0) (0, 0) (1, 1)) (0, 0) (1, 1) = (2, 0)"
proof -
  have h: "fst (vsub (1, 1) (0, 0)) * fst (vsub (1, 1) (0, 0))
         + snd (vsub (1, 1) (0, 0)) * snd (vsub (1, 1) (0, 0)) \<noteq> (0 :: real)"
    by (simp add: vsub_def)
  have "reflection (2, 0) (0, 0) (1, 1) = (0, 2)"
    by (simp add: reflection_def vsub_def vadd_def matvec_def dot_def Let_def)
  with reflection_involution [OF h, of "(2, 0)"] show ?thesis by simp
qed

text \<open>
  C5. \<open>intersection a0 a1 b0 b1\<close> is \<open>a1\<close> when the determinant
  \<open>(a0 - a1) \<times> (b0 - b1)\<close> is zero or when one of the parameters \<open>t_a\<close>, \<open>t_b\<close>
  lies outside \<open>[0, 1]\<close>; otherwise it is \<open>b0 + t_b (b1 - b0)\<close>. When the determinant
  is nonzero that point is also \<open>a0 + t_a (a1 - a0)\<close>, and it is the only point the two
  lines share: any parameters \<open>r\<close>, \<open>u\<close> with \<open>a0 + r (a1 - a0) = b0 + u (b1 - b0)\<close>
  are \<open>t_a\<close> and \<open>t_b\<close>.
\<close>

theorem intersection_sentinel_or_crossing:
  fixes a0 a1 b0 b1 :: vec2
  defines "det \<equiv> cross (vsub a0 a1) (vsub b0 b1)"
  defines "t_a \<equiv> cross (vsub a0 b0) (vsub b0 b1) / det"
  defines "t_b \<equiv> cross (vsub a0 b0) (vsub a0 a1) / det"
  shows "intersection a0 a1 b0 b1 =
           (if det = 0 \<or> t_a < 0 \<or> 1 < t_a \<or> t_b < 0 \<or> 1 < t_b then a1
            else vadd b0 (smul t_b (vsub b1 b0))) \<and>
         (det \<noteq> 0 \<longrightarrow> vadd b0 (smul t_b (vsub b1 b0)) = vadd a0 (smul t_a (vsub a1 a0))) \<and>
         (\<forall>r u. det \<noteq> 0 \<and> vadd a0 (smul r (vsub a1 a0)) = vadd b0 (smul u (vsub b1 b0))
                \<longrightarrow> r = t_a \<and> u = t_b)"
proof -
  have A: "intersection a0 a1 b0 b1 =
           (if det = 0 \<or> t_a < 0 \<or> 1 < t_a \<or> t_b < 0 \<or> 1 < t_b then a1
            else vadd b0 (smul t_b (vsub b1 b0)))"
    by (auto simp add: intersection_def Let_def det_def t_a_def t_b_def)
  have B: "det \<noteq> 0 \<longrightarrow> vadd b0 (smul t_b (vsub b1 b0)) = vadd a0 (smul t_a (vsub a1 a0))"
  proof
  assume nz: "det \<noteq> 0"
  obtain a0x a0y where a0: "a0 = (a0x, a0y)" by (cases a0)
  obtain a1x a1y where a1: "a1 = (a1x, a1y)" by (cases a1)
  obtain b0x b0y where b0: "b0 = (b0x, b0y)" by (cases b0)
  obtain b1x b1y where b1: "b1 = (b1x, b1y)" by (cases b1)
  have tb: "t_b * det = cross (vsub a0 b0) (vsub a0 a1)" using nz by (simp add: t_b_def)
  have ta: "t_a * det = cross (vsub a0 b0) (vsub b0 b1)" using nz by (simp add: t_a_def)
  have "det * fst (vadd b0 (smul t_b (vsub b1 b0))) = det * fst (vadd a0 (smul t_a (vsub a1 a0)))"
  proof -
    have "det * fst (vadd b0 (smul t_b (vsub b1 b0))) = det * b0x + (t_b * det) * (b1x - b0x)"
      by (simp add: a0 a1 b0 b1 vadd_def smul_def vsub_def algebra_simps)
    also have "\<dots> = det * a0x + (t_a * det) * (a1x - a0x)"
      unfolding ta tb by (simp add: det_def a0 a1 b0 b1 cross_def vsub_def algebra_simps)
    also have "\<dots> = det * fst (vadd a0 (smul t_a (vsub a1 a0)))"
      by (simp add: a0 a1 b0 b1 vadd_def smul_def vsub_def algebra_simps)
    finally show ?thesis .
  qed
  moreover
  have "det * snd (vadd b0 (smul t_b (vsub b1 b0))) = det * snd (vadd a0 (smul t_a (vsub a1 a0)))"
  proof -
    have "det * snd (vadd b0 (smul t_b (vsub b1 b0))) = det * b0y + (t_b * det) * (b1y - b0y)"
      by (simp add: a0 a1 b0 b1 vadd_def smul_def vsub_def algebra_simps)
    also have "\<dots> = det * a0y + (t_a * det) * (a1y - a0y)"
      unfolding ta tb by (simp add: det_def a0 a1 b0 b1 cross_def vsub_def algebra_simps)
    also have "\<dots> = det * snd (vadd a0 (smul t_a (vsub a1 a0)))"
      by (simp add: a0 a1 b0 b1 vadd_def smul_def vsub_def algebra_simps)
    finally show ?thesis .
  qed
  ultimately show "vadd b0 (smul t_b (vsub b1 b0)) = vadd a0 (smul t_a (vsub a1 a0))"
    using nz by (simp add: prod_eq_iff)
  qed
  have C: "\<forall>r u. det \<noteq> 0 \<and> vadd a0 (smul r (vsub a1 a0)) = vadd b0 (smul u (vsub b1 b0))
                \<longrightarrow> r = t_a \<and> u = t_b"
  proof (intro allI impI)
  fix r u
  assume h: "det \<noteq> 0 \<and> vadd a0 (smul r (vsub a1 a0)) = vadd b0 (smul u (vsub b1 b0))"
  then have nz: "det \<noteq> 0" by simp
  obtain a0x a0y where a0: "a0 = (a0x, a0y)" by (cases a0)
  obtain a1x a1y where a1: "a1 = (a1x, a1y)" by (cases a1)
  obtain b0x b0y where b0: "b0 = (b0x, b0y)" by (cases b0)
  obtain b1x b1y where b1: "b1 = (b1x, b1y)" by (cases b1)
  from h have e1: "a0x - b0x = u * (b1x - b0x) - r * (a1x - a0x)"
    and e2: "a0y - b0y = u * (b1y - b0y) - r * (a1y - a0y)"
    by (simp_all add: a0 a1 b0 b1 vadd_def smul_def vsub_def algebra_simps)
  have "cross (vsub a0 b0) (vsub b0 b1) = r * det"
    by (simp add: a0 a1 b0 b1 cross_def vsub_def det_def e1 e2 algebra_simps)
  then have 1: "r = t_a" using nz by (simp add: t_a_def)
  have "cross (vsub a0 b0) (vsub a0 a1) = u * det"
    by (simp add: a0 a1 b0 b1 cross_def vsub_def det_def e1 e2 algebra_simps)
  then have 2: "u = t_b" using nz by (simp add: t_b_def)
  from 1 2 show "r = t_a \<and> u = t_b" by (rule conjI)
  qed
  from A B C show ?thesis by (intro conjI)
qed

theorem intersection_sentinel_or_crossing_witness:
  "intersection (0, 0) (2, 2) (0, 2) (2, 0) = (1, 1) \<and>
   intersection (0, 0) (1, 0) (0, 1) (1, 1) = (1, 0) \<and>
   intersection (0, 0) (1, 1) (0, 4) (4, 0) = (1, 1)"
proof -
  from intersection_sentinel_or_crossing [of "(0, 0)" "(2, 2)" "(0, 2)" "(2, 0)"]
  have a: "intersection (0, 0) (2, 2) (0, 2) (2, 0) = (1, 1)"
    by (simp add: cross_def vsub_def vadd_def smul_def)
  from intersection_sentinel_or_crossing [of "(0, 0)" "(1, 0)" "(0, 1)" "(1, 1)"]
  have b: "intersection (0, 0) (1, 0) (0, 1) (1, 1) = (1, 0)"
    by (simp add: cross_def vsub_def vadd_def smul_def)
  from intersection_sentinel_or_crossing [of "(0, 0)" "(1, 1)" "(0, 4)" "(4, 0)"]
  have c: "intersection (0, 0) (1, 1) (0, 4) (4, 0) = (1, 1)"
    by (simp add: cross_def vsub_def vadd_def smul_def)
  from a b c show ?thesis by (intro conjI)
qed

text \<open>
  C6, as the specification states it: every node with positive mass within the last
  three cells of an axis has its positive velocity component on that axis zeroed. The
  high-side test of the source is \<^verbatim>\<open>i > grid_res - 3\<close>, which holds for the last two
  indices only. At quality 1 the node \<open>(125, 64)\<close> is the third cell from the high edge;
  with mass 1 and momentum \<open>(1, 0)\<close> its velocity after the grid update still points
  outward.
\<close>

theorem high_margin_third_cell_counterexample:
  "in_grid 1 (125, 64) \<and> grid_res 1 - 3 \<le> fst (125 :: int, 64 :: int) \<and>
   grid_m moving_grid (125, 64) > 0 \<and>
   limit_box 1 (125, 64) (1, - (49 / 50000)) = (1, - (49 / 50000)) \<and>
   grid_v (grid_update 1 0 moving_grid) (125, 64) = (1, - (49 / 50000))"
  by (simp add: grid_update_def moving_grid_def in_grid_def grid_res_def grid_op_def Let_def
      sdiv_def vadd_def smul_def dt_def g_def limit_box_def limit_circle_def node_dpos_def dx_def
      vnorm_axis dot_def)

text \<open>
  C6, amended. For every node of the grid with positive mass, the velocity handed to the
  rim step is the box-limited one, and the box limit zeroes a negative component at an
  index below 3 and a positive component at an index above \<open>grid_res - 3\<close> (the last two
  cells), on each axis.
\<close>

theorem box_limit_outward_zero:
  fixes quality :: nat and omega :: real and s :: Mpm and node :: "int \<times> int"
  defines "vel \<equiv> vadd (sdiv (grid_v s node) (grid_m s node)) (smul (dt quality) g)"
  assumes "in_grid quality node" and "grid_m s node > 0"
  shows "grid_v (grid_update quality omega s) node
           = limit_circle quality omega node (limit_box quality node vel) \<and>
         (fst node < 3 \<and> fst vel < 0 \<longrightarrow> fst (limit_box quality node vel) = 0) \<and>
         (fst node > grid_res quality - 3 \<and> fst vel > 0 \<longrightarrow> fst (limit_box quality node vel) = 0) \<and>
         (snd node < 3 \<and> snd vel < 0 \<longrightarrow> snd (limit_box quality node vel) = 0) \<and>
         (snd node > grid_res quality - 3 \<and> snd vel > 0 \<longrightarrow> snd (limit_box quality node vel) = 0)"
proof -
  have "grid_v (grid_update quality omega s) node
           = limit_circle quality omega node (limit_box quality node vel)"
    unfolding vel_def using assms(2,3) by (rule grid_update_node)
  from this limit_box_props [of node vel quality] show ?thesis by (rule conjI)
qed

theorem box_limit_outward_zero_witness:
  "in_grid 1 (126, 2) \<and> grid_m moving_grid (126, 2) > 0 \<and>
   limit_box 1 (126, 2)
     (vadd (sdiv (grid_v moving_grid (126, 2)) (grid_m moving_grid (126, 2))) (smul (dt 1) g))
     = (0, 0)"
proof -
  have h1: "in_grid 1 (126, 2)" by (simp add: in_grid_def grid_res_def)
  have h2: "grid_m moving_grid (126, 2) > 0" by (simp add: moving_grid_def)
  have v: "vadd (sdiv (grid_v moving_grid (126, 2)) (grid_m moving_grid (126, 2))) (smul (dt 1) g)
           = (1, - (49 / 50000))"
    by (simp add: moving_grid_def vadd_def sdiv_def smul_def dt_def g_def)
  have r: "fst (126 :: int, 2 :: int) > grid_res 1 - 3 \<and> fst (1 :: real, - (49 / 50000) :: real) > 0"
    "snd (126 :: int, 2 :: int) < 3 \<and> snd (1 :: real, - (49 / 50000) :: real) < 0"
    by (simp_all add: grid_res_def)
  from box_limit_outward_zero [OF h1 h2, of 0] r
  have "limit_box 1 (126, 2) (1, - (49 / 50000)) = (0, 0)"
    unfolding v by (simp add: prod_eq_iff)
  with h1 h2 show ?thesis unfolding v by (intro conjI)
qed

text \<open>
  C7, as the specification states it: a mirror count below 2 or a non-positive radius
  makes the constructor fail. The constructor checks nothing: with one mirror it returns
  a polygon whose two vertices coincide, and with radius 0 one whose vertices all lie on
  the centre.
\<close>

theorem Reflect_init_no_validation_counterexample:
  "Reflect_init (256, 256) 1 1 =
     Inr \<lparr>center = (256, 256), n_mirrors = 1, mirror_pts = [(257, 256), (257, 256)]\<rparr> \<and>
   Reflect_init (256, 256) 5 0 =
     Inr \<lparr>center = (256, 256), n_mirrors = 5,
          mirror_pts = [(256, 256), (256, 256), (256, 256), (256, 256), (256, 256), (256, 256)]\<rparr>"
  by (simp add: Reflect_init_def linspace_def upt_rec numeral_eq_Suc)

text \<open>
  C7, amended. For every mirror count and every radius the constructor returns a
  polygon: it stores the centre and the count, and vertex \<open>k\<close> of its \<open>n + 1\<close>
  vertices is the centre plus the radius times \<open>(cos, sin)\<close> of the angle \<open>k * (2 pi / n)\<close>.
  No argument is rejected.
\<close>

theorem Reflect_init_always_builds:
  "\<exists>R. Reflect_init c n radius = Inr R \<and> center R = c \<and> n_mirrors R = n \<and>
        length (mirror_pts R) = n + 1 \<and>
        (\<forall>k \<le> n. mirror_pts R ! k =
            (fst c + radius * cos (real k * (2 * pi / real n)),
             snd c + radius * sin (real k * (2 * pi / real n))))"
  by (simp add: Reflect_init_def Let_def length_linspace nth_linspace)

theorem Reflect_init_always_builds_witness:
  "\<exists>R. Reflect_init (0, 0) 2 1 = Inr R \<and> center R = (0, 0) \<and> n_mirrors R = 2 \<and>
        length (mirror_pts R) = 3 \<and> mirror_pts R ! 1 = (- 1, 0)"
proof -
  from Reflect_init_always_builds [of "(0, 0)" 2 1] obtain R where
    R: "Reflect_init (0, 0) 2 1 = Inr R" "center R = (0, 0)" "n_mirrors R = 2"
      "length (mirror_pts R) = 2 + 1"
    and k: "\<forall>k \<le> 2. mirror_pts R ! k =
            (fst (0 :: real, 0 :: real) + 1 * cos (real k * (2 * pi / real 2)),
             snd (0 :: real, 0 :: real) + 1 * sin (real k * (2 * pi / real 2)))"
    by blast
  from k have "mirror_pts R ! 1 = (- 1, 0)" by simp
  with R show ?thesis by simp
qed

text \<open>
  C8. For the polygon built with centre \<open>(256, 256)\<close>, 5 mirrors and radius \<open>76.8\<close>,
  the first round of the tracer at the pixel \<open>(256, 256)\<close> takes the \<^verbatim>\<open>break\<close>, so no
  reflection is performed, and the tracer returns \<open>(256, 256)\<close>.
\<close>

theorem tracing_center_case:
  "\<exists>R. Reflect_init (256, 256) 5 (768 / 10) = Inr R \<and>
        tracing_iter R (center R, (real_of_int 256, real_of_int 256)) = None \<and>
        tracing R 256 256 = (256, 256)"
proof -
  define R where "R = \<lparr> center = (256 :: real, 256 :: real), n_mirrors = 5,
      mirror_pts = map (\<lambda>t. (fst (256 :: real, 256 :: real) + 768 / 10 * cos t,
                               snd (256 :: real, 256 :: real) + 768 / 10 * sin t))
                       (linspace 0 (2 * pi) (5 + 1)) \<rparr>"
  have i: "Reflect_init (256, 256) 5 (768 / 10) = Inr R"
    by (simp only: Reflect_init_def Let_def R_def)
  have c: "center R = (real_of_int 256, real_of_int 256)" by (simp add: R_def)
  have "tracing_iter R (center R, (real_of_int 256, real_of_int 256)) = None"
    unfolding c by (rule tracing_iter_same)
  moreover have "tracing R 256 256 = (256, 256)"
    using tracing_at_center [OF c] by simp
  ultimately show ?thesis using i by blast
qed

text \<open>
  C9. A sub-step that completes leaves the number of particles and the fields
  \<open>material\<close>, \<open>color\<close> and \<open>color_id\<close> of every particle as they were.
\<close>

theorem substep_frame:
  assumes "substep svd quality omega s = Some s'"
  shows "length (particles s') = length (particles s) \<and>
         map material (particles s') = map material (particles s) \<and>
         map color (particles s') = map color (particles s) \<and>
         map color_id (particles s') = map color_id (particles s)"
  using assms by (rule substep_static)

theorem substep_frame_witness:
  "\<exists>s'. substep svd_diag 1 0 one_jelly = Some s' \<and>
        length (particles s') = 1 \<and>
        map material (particles s') = [MATERIAL_JELLY] \<and>
        map color (particles s') = [(1, 0, 0)] \<and>
        map color_id (particles s') = [0]"
proof -
  have h: "\<forall>p \<in> set (particles one_jelly). nbhd_in_grid 1 (x p)"
    by (simp add: one_jelly_def jelly_particle_def nbhd_in_grid_def base_of_def inv_dx_def
        grid_res_def cast_int_def Let_def)
  from substep_Some [OF h] obtain s' where r: "substep svd_diag 1 0 one_jelly = Some s'"
    by blast
  from substep_frame [OF r] have
    "length (particles s') = 1 \<and>
        map material (particles s') = [MATERIAL_JELLY] \<and>
        map color (particles s') = [(1, 0, 0)] \<and>
        map color_id (particles s') = [0]"
    by (simp add: one_jelly_def jelly_particle_def)
  with r have "substep svd_diag 1 0 one_jelly = Some s' \<and>
        length (particles s') = 1 \<and>
        map material (particles s') = [MATERIAL_JELLY] \<and>
        map color (particles s') = [(1, 0, 0)] \<and>
        map color_id (particles s') = [0]"
    by (rule conjI)
  then show ?thesis by (rule exI [of _ s'])
qed

text \<open>
  C10. In a sub-step that completes, a particle whose material is not snow, and for
  which both singular values returned for its updated deformation gradient are nonzero,
  keeps its \<open>Jp\<close>. (Lemma \<open>Jp_invariant_jelly\<close> above draws the consequence for a
  field of jelly particles with \<open>Jp = 1\<close>.)
\<close>

theorem substep_Jp_unchanged:
  assumes "substep svd quality omega s = Some s'"
    and "k < length (particles s)"
    and "material (particles s ! k) \<noteq> MATERIAL_SNOW"
    and "diag_get (fst (snd (svd (deform_F quality (particles s ! k))))) 0 \<noteq> 0"
    and "diag_get (fst (snd (svd (deform_F quality (particles s ! k))))) 1 \<noteq> 0"
  shows "Jp (particles s' ! k) = Jp (particles s ! k)"
  using assms by (rule substep_Jp_not_snow)

theorem substep_Jp_unchanged_witness:
  "\<exists>s'. substep svd_diag 1 0 one_jelly = Some s' \<and> Jp (particles s' ! 0) = 1"
proof -
  have h: "\<forall>p \<in> set (particles one_jelly). nbhd_in_grid 1 (x p)"
    by (simp add: one_jelly_def jelly_particle_def nbhd_in_grid_def base_of_def inv_dx_def
        grid_res_def cast_int_def Let_def)
  from substep_Some [OF h] obtain s' where r: "substep svd_diag 1 0 one_jelly = Some s'"
    by blast
  have p: "particles one_jelly ! 0 = jelly_particle" by (simp add: one_jelly_def)
  have k: "0 < length (particles one_jelly)" by (simp add: one_jelly_def)
  have m: "material (particles one_jelly ! 0) \<noteq> MATERIAL_SNOW"
    unfolding p by (simp add: jelly_particle_def MATERIAL_JELLY_def MATERIAL_SNOW_def)
  have f: "deform_F 1 jelly_particle = identity"
    by (simp add: deform_F_def jelly_particle_def identity_def matmul_def madd_def mscale_def
        transpose_m_def dot_def vadd_def smul_def)
  have z0: "diag_get (fst (snd (svd_diag (deform_F 1 (particles one_jelly ! 0))))) 0 \<noteq> 0"
    unfolding p f by (simp add: svd_diag_def identity_def diag_get_def)
  have z1: "diag_get (fst (snd (svd_diag (deform_F 1 (particles one_jelly ! 0))))) 1 \<noteq> 0"
    unfolding p f by (simp add: svd_diag_def identity_def diag_get_def)
  from substep_Jp_unchanged [OF r k m z0 z1] have "Jp (particles s' ! 0) = 1"
    by (simp add: p jelly_particle_def)
  with r have "substep svd_diag 1 0 one_jelly = Some s' \<and> Jp (particles s' ! 0) = 1"
    by (rule conjI)
  then show ?thesis by (rule exI [of _ s'])
qed

end
